theory Spec2Isabelle
  imports Main "HOL-Library.AList" "HOL-Library.Word"
begin

unbundle bit_operations_syntax

section \<open>The relay store (wormhole-relay/src/store.ts)\<close>

text \<open>
  A \<open>Buffer\<close> is a list of bytes. \<open>Date.now()\<close> is an input of every operation that
  reads the clock (\<open>now\<close>, in milliseconds). The store's \<open>Map\<close> keeps its entries in
  insertion order, so it is an association list: \<open>Map.get\<close> is \<open>map_of\<close>,
  \<open>Map.set\<close> is \<open>AList.update\<close> (in place for a known key, appended otherwise),
  \<open>Map.delete\<close> is \<open>AList.delete\<close>. The sweep timer is not part of the state.
\<close>

type_synonym byte = "8 word"
type_synonym Buffer = "byte list"

record TransferEntry =
  data :: Buffer
  createdAt :: int
  metadata :: "string option"

record TransferStore =
  entries :: "(string \<times> TransferEntry) list"
  maxSize :: int
  ttlMs :: int

text \<open>The constructor: each option falls back to its default (\<open>??\<close>).\<close>

definition new_store :: "int option \<Rightarrow> int option \<Rightarrow> TransferStore" where
  "new_store optMaxSize optTtlMs =
     \<lparr>entries = [],
      maxSize = (case optMaxSize of None \<Rightarrow> 1048576 | Some m \<Rightarrow> m),
      ttlMs = (case optTtlMs of None \<Rightarrow> 600000 | Some t \<Rightarrow> t)\<rparr>"

text \<open>
  The two error strings of \<open>put\<close>: \<open>PayloadTooLarge n m\<close> stands for
  "Payload too large: n bytes (max m)", \<open>TransferIdExists\<close> for "Transfer ID already exists".
\<close>

datatype put_error = PayloadTooLarge nat int | TransferIdExists

datatype put_result = PutOk | PutFailed put_error

definition put :: "int \<Rightarrow> string \<Rightarrow> Buffer \<Rightarrow> string option \<Rightarrow> TransferStore
    \<Rightarrow> put_result \<times> TransferStore" where
  "put now id' dat md s =
     (if int (length dat) > maxSize s then (PutFailed (PayloadTooLarge (length dat) (maxSize s)), s)
      else if map_of (entries s) id' \<noteq> None then (PutFailed TransferIdExists, s)
      else (PutOk, s\<lparr>entries :=
              AList.update id' \<lparr>data = dat, createdAt = now, metadata = md\<rparr> (entries s)\<rparr>))"

definition get :: "string \<Rightarrow> TransferStore \<Rightarrow> TransferEntry option \<times> TransferStore" where
  "get id' s =
     (case map_of (entries s) id' of
        None \<Rightarrow> (None, s)
      | Some entry \<Rightarrow> (Some entry, s\<lparr>entries := AList.delete id' (entries s)\<rparr>))"

definition delete :: "string \<Rightarrow> TransferStore \<Rightarrow> bool \<times> TransferStore" where
  "delete id' s =
     (map_of (entries s) id' \<noteq> None, s\<lparr>entries := AList.delete id' (entries s)\<rparr>)"

definition has :: "string \<Rightarrow> TransferStore \<Rightarrow> bool" where
  "has id' s = (map_of (entries s) id' \<noteq> None)"

definition count :: "TransferStore \<Rightarrow> nat" where
  "count s = length (entries s)"

text \<open>
  \<open>cleanup\<close>: the \<open>for ... of\<close> loop visits every entry of the map once (deleting
  the entry under the iterator does not disturb a \<open>Map\<close> iteration); \<open>todo\<close> is what
  the iterator has still to visit.
\<close>

fun cleanup_loop :: "int \<Rightarrow> (string \<times> TransferEntry) list \<Rightarrow> TransferStore \<Rightarrow> nat
    \<Rightarrow> nat \<times> TransferStore" where
  "cleanup_loop now [] s removed = (removed, s)"
| "cleanup_loop now ((id', entry) # todo) s removed =
     (if now - createdAt entry > ttlMs s
      then cleanup_loop now todo (s\<lparr>entries := AList.delete id' (entries s)\<rparr>) (removed + 1)
      else cleanup_loop now todo s removed)"

definition cleanup :: "int \<Rightarrow> TransferStore \<Rightarrow> nat \<times> TransferStore" where
  "cleanup now s = cleanup_loop now (entries s) s 0"

text \<open>Every store the program can reach holds each identifier at most once.\<close>

definition store_inv :: "TransferStore \<Rightarrow> bool" where
  "store_inv s = distinct (map fst (entries s))"

text \<open>The age of an entry at time \<open>now\<close>, and the spec's "logically expired".\<close>

definition age :: "int \<Rightarrow> TransferEntry \<Rightarrow> int" where
  "age now entry = now - createdAt entry"

definition expired :: "int \<Rightarrow> TransferStore \<Rightarrow> TransferEntry \<Rightarrow> bool" where
  "expired now s entry = (age now entry \<ge> ttlMs s)"

text \<open>A store with one entry created at time 0, and a TTL of 10 ms.\<close>

definition entry0 :: TransferEntry where
  "entry0 = \<lparr>data = [1, 2, 3], createdAt = 0, metadata = None\<rparr>"

definition store0 :: TransferStore where
  "store0 = \<lparr>entries = [(''ab'', entry0)], maxSize = 100, ttlMs = 10\<rparr>"

section \<open>Transfer codes (wormhole/src/codes.ts) and the receiver's check (wormhole/src/index.ts)\<close>

text \<open>The dictionary, as the source lists it.\<close>

definition WORDS :: "string list" where
  "WORDS =
    [
     ''acid'', ''acorn'', ''acre'', ''agent'', ''album'', ''alert'', ''alien'', ''alley'', ''amber'', ''angel'',
     ''angle'', ''ankle'', ''anvil'', ''apple'', ''apron'', ''arena'', ''atlas'', ''axle'', ''badge'', ''bagel'',
     ''baker'', ''balm'', ''bamboo'', ''banjo'', ''barn'', ''baron'', ''basin'', ''batch'', ''beach'', ''beard'',
     ''beast'', ''bench'', ''berry'', ''birch'', ''blade'', ''blank'', ''blast'', ''blaze'', ''bloom'', ''bluff'',
     ''board'', ''booth'', ''boulder'', ''brain'', ''brass'', ''brave'', ''brick'', ''bridge'', ''brisk'', ''brook'',
     ''brush'', ''bubble'', ''bucket'', ''buddy'', ''buggy'', ''bunny'', ''cabin'', ''cable'', ''camel'', ''candy'',
     ''canoe'', ''cargo'', ''cedar'', ''chain'', ''chalk'', ''charm'', ''chase'', ''chess'', ''chill'', ''china'',
     ''choir'', ''chunk'', ''cider'', ''cigar'', ''circle'', ''civic'', ''claim'', ''clamp'', ''clash'', ''cliff'',
     ''climb'', ''clock'', ''cloud'', ''clown'', ''coach'', ''cobra'', ''cocoa'', ''comet'', ''coral'', ''couch'',
     ''crane'', ''crash'', ''crest'', ''crisp'', ''cross'', ''crowd'', ''crown'', ''crush'', ''curve'', ''cycle'',
     ''dagger'', ''dairy'', ''dance'', ''delta'', ''demon'', ''derby'', ''diary'', ''ditch'', ''dodge'', ''donut'',
     ''draft'', ''dragon'', ''drama'', ''dream'', ''drift'', ''drill'', ''drone'', ''drum'', ''dune'', ''dwarf'',
     ''eagle'', ''earth'', ''easel'', ''eclipse'', ''elder'', ''ember'', ''emoji'', ''epoch'', ''equip'', ''event'',
     ''exile'', ''fable'', ''faith'', ''falcon'', ''feast'', ''fence'', ''ferry'', ''fiber'', ''field'', ''flame'',
     ''flash'', ''fleet'', ''flint'', ''float'', ''flood'', ''flora'', ''flute'', ''focus'', ''forge'', ''forum'',
     ''fossil'', ''fox'', ''frame'', ''frost'', ''fruit'', ''fudge'', ''fungi'', ''fury'', ''galaxy'', ''gamma'',
     ''garden'', ''garlic'', ''gauge'', ''gavel'', ''ghost'', ''giant'', ''ginger'', ''glacier'', ''glaze'', ''globe'',
     ''glove'', ''glyph'', ''goat'', ''goblet'', ''grace'', ''grain'', ''grape'', ''gravel'', ''green'', ''grill'',
     ''grove'', ''guard'', ''guild'', ''guitar'', ''gypsy'', ''habit'', ''hammer'', ''harbor'', ''haven'', ''hawk'',
     ''hazel'', ''heart'', ''hedge'', ''heron'', ''honey'', ''honor'', ''horse'', ''hotel'', ''humor'', ''hydra'',
     ''ivory'', ''jacket'', ''jade'', ''jaguar'', ''jewel'', ''joker'', ''judge'', ''juice'', ''jungle'', ''karma'',
     ''kayak'', ''kernel'', ''kiosk'', ''knight'', ''knob'', ''label'', ''lace'', ''lake'', ''lance'', ''lantern'',
     ''larch'', ''laser'', ''latch'', ''lava'', ''leaf'', ''ledge'', ''lemon'', ''lens'', ''lever'', ''light'',
     ''lilac'', ''linen'', ''lion'', ''llama'', ''lodge'', ''lotus'', ''lunar'', ''lunch'', ''mango'', ''manor'',
     ''maple'', ''marsh'', ''mason'', ''match'', ''maze'', ''medal'', ''melon'', ''mesa'', ''metal'', ''micro'',
     ''miner'', ''mint'', ''moat'', ''model'', ''molar'', ''money'', ''moose'', ''morph'', ''moth'', ''motor'',
     ''mount'', ''mouse'', ''mural'', ''music'', ''myth'', ''navel'', ''nerve'', ''nexus'', ''noble'', ''north'',
     ''notch'', ''novel'', ''nudge'', ''oasis'', ''ocean'', ''olive'', ''omega'', ''onion'', ''opera'', ''orbit'',
     ''organ'', ''otter'', ''outer'', ''oxide'', ''oyster'', ''panda'', ''panel'', ''paper'', ''park'', ''patch'',
     ''pearl'', ''pedal'', ''penny'', ''petal'', ''phase'', ''piano'', ''pilot'', ''pinch'', ''pixel'', ''pizza'',
     ''plank'', ''plant'', ''plaza'', ''plumb'', ''plume'', ''poach'', ''polar'', ''pond'', ''porch'', ''pouch'',
     ''pound'', ''prism'', ''probe'', ''prong'', ''prose'', ''proud'', ''prune'', ''pulse'', ''punch'', ''pupil'',
     ''quail'', ''quake'', ''query'', ''quest'', ''quill'', ''quota'', ''radar'', ''radio'', ''raven'', ''realm'',
     ''ridge'', ''rivet'', ''robin'', ''robot'', ''rogue'', ''roost'', ''rover'', ''ruby'', ''rugby'', ''rumor'',
     ''salad'', ''salon'', ''salsa'', ''sandy'', ''sauce'', ''sauna'', ''scale'', ''scout'', ''shark'', ''shelf'',
     ''shell'', ''shift'', ''shirt'', ''shock'', ''shore'', ''shrub'', ''sigma'', ''silk'', ''siren'', ''skull'',
     ''slate'', ''sleek'', ''slice'', ''slope'', ''smoke'', ''snail'', ''snake'', ''solar'', ''sonic'', ''space'',
     ''spark'', ''spear'', ''spice'', ''spike'', ''spine'', ''spoke'', ''spoon'', ''spray'', ''squid'', ''staff'',
     ''stage'', ''stake'', ''stamp'', ''steam'', ''steel'', ''steep'', ''steer'', ''stern'', ''stone'', ''stork'',
     ''storm'', ''stove'', ''straw'', ''sugar'', ''surge'', ''swamp'', ''swarm'', ''swift'', ''sword'', ''syrup'',
     ''table'', ''talon'', ''tango'', ''thorn'', ''tiara'', ''tidal'', ''tiger'', ''toast'', ''topaz'', ''torch'',
     ''tower'', ''trace'', ''trail'', ''train'', ''tramp'', ''trend'', ''tribe'', ''trick'', ''trout'', ''truck'',
     ''tulip'', ''tumor'', ''tundra'', ''turbo'', ''turf'', ''tweed'', ''ultra'', ''umber'', ''unity'', ''urban'',
     ''usher'', ''valve'', ''vault'', ''venom'', ''verse'', ''vigor'', ''villa'', ''viola'', ''viper'', ''vivid'',
     ''vocal'', ''vodka'', ''vortex'', ''wafer'', ''wagon'', ''waltz'', ''watch'', ''water'', ''whale'', ''wheat'',
     ''wheel'', ''whirl'', ''widow'', ''wings'', ''witch'', ''wizard'', ''world'', ''wound'', ''wrist'', ''yacht'',
     ''yield'', ''zebra'', ''zinc'', ''cozy'', ''haze'', ''dome'', ''pine'', ''reef'', ''sage'', ''tide'',
     ''vine'', ''wren'', ''yoke'', ''zone'', ''arch'', ''bolt'', ''cape'', ''claw'', ''cone'', ''cork'',
     ''dusk'', ''elm'', ''fang'', ''fern'', ''fist'', ''gale'', ''gem'', ''glen'', ''harp'', ''helm'',
     ''hive'', ''hull'', ''iris'', ''isle'', ''jolt'', ''kelp'', ''kiln'', ''knot'', ''lamp'', ''lark'']"

text \<open>The character classes \<open>\d\<close> and \<open>[a-z]\<close> of a regular expression without the Unicode flag.\<close>

definition is_digit :: "char \<Rightarrow> bool" where
  "is_digit c = (48 \<le> (of_char c :: nat) \<and> (of_char c :: nat) \<le> 57)"

definition is_lower :: "char \<Rightarrow> bool" where
  "is_lower c = (97 \<le> (of_char c :: nat) \<and> (of_char c :: nat) \<le> 122)"

text \<open>
  \<open>code.match(/^(\d+)-([a-z]+)-([a-z]+)$/)\<close>: the three groups, or \<open>None\<close> for
  \<open>null\<close>. The hyphen belongs to neither class, so each greedy group ends at the first
  character outside its class and no backtracking can find another match; \<open>$\<close> without
  the multiline flag is the end of the string. Lemma \<open>match_code_Some_iff\<close> below shows
  that this scan accepts exactly the language of the expression.
\<close>

definition match_code :: "string \<Rightarrow> (string \<times> string \<times> string) option" where
  "match_code code =
     (let d = takeWhile is_digit code; r1 = dropWhile is_digit code in
      if d = [] then None else
      case r1 of [] \<Rightarrow> None | c1 # r2 \<Rightarrow>
        if c1 \<noteq> CHR ''-'' then None else
        let w1 = takeWhile is_lower r2; r3 = dropWhile is_lower r2 in
        if w1 = [] then None else
        case r3 of [] \<Rightarrow> None | c2 # w2 \<Rightarrow>
          if c2 \<noteq> CHR ''-'' then None else
          if w2 = [] \<or> \<not> list_all is_lower w2 then None else Some (d, w1, w2))"

text \<open>
  \<open>parseInt(match[1], 10)\<close> on a non-empty string of decimal digits, the only input
  \<open>parseCode\<close> gives it. JavaScript rounds a value beyond \<open>2^53\<close> to a double; the
  rounding is monotone, so the comparisons with 1 and 999 come out as on the exact value,
  and a value that is returned is at most 999, hence exact.
\<close>

definition parseInt :: "string \<Rightarrow> nat" where
  "parseInt ds = foldl (\<lambda>n c. 10 * n + (of_char c - 48)) 0 ds"

record ParsedCode =
  number :: nat
  word1 :: string
  word2 :: string

definition parseCode :: "string \<Rightarrow> ParsedCode option" where
  "parseCode code =
     (case match_code code of
        None \<Rightarrow> None
      | Some (d, w1, w2) \<Rightarrow>
          let num = parseInt d in
          if num < 1 \<or> num > 999 then None
          else Some \<lparr>number = num, word1 = w1, word2 = w2\<rparr>)"

definition isValidCode :: "string \<Rightarrow> bool" where
  "isValidCode code = (parseCode code \<noteq> None)"

text \<open>
  The first statement of \<open>receive\<close>: \<open>Inl\<close> is the message of the \<open>Error\<close> it throws,
  \<open>Inr code\<close> the code that goes on to \<open>deriveEncryptionKey\<close>, \<open>deriveRelayKey\<close> and the
  download.
\<close>

definition receive_check :: "string \<Rightarrow> string + string" where
  "receive_check code =
     (if \<not> isValidCode code then Inl (''Invalid wormhole code: '' @ code) else Inr code)"

text \<open>
  The format as the specification words it: \<open>^\d{1,3}-[a-z]+-[a-z]+$\<close> with the numeric
  part in \<open>[1, 999]\<close>.
\<close>

definition spec_code_format :: "string \<Rightarrow> bool" where
  "spec_code_format code =
     (case match_code code of
        None \<Rightarrow> False
      | Some (d, w1, w2) \<Rightarrow> length d \<le> 3 \<and> 1 \<le> parseInt d \<and> parseInt d \<le> 999)"

section \<open>The envelope cipher (src/unnamed/part_000, the module \<open>./crypto.js\<close> of index.ts)\<close>

subsection \<open>AES-256, the block cipher behind \<open>aes-256-gcm\<close> (FIPS 197)\<close>

text \<open>
  \<open>encrypt\<close> and \<open>decrypt\<close> call Node's \<open>crypto.createCipheriv('aes-256-gcm', key, iv)\<close>
  and \<open>createDecipheriv\<close>. What these compute is fixed by two standards, FIPS 197 (AES) and
  NIST SP 800-38D (GCM), and is written out here from them: the state is the list of its 16
  bytes in input order (column by column), a key schedule is the list of its 60 four-byte
  words. The lemmas \<open>aes256_fips197_vector\<close> and \<open>gcm_test_case_14\<close> below check the
  definitions against the published test vectors.
\<close>

definition sbox_table :: "byte list" where
  "sbox_table =
    [
     0x63, 0x7c, 0x77, 0x7b, 0xf2, 0x6b, 0x6f, 0xc5, 0x30, 0x01, 0x67, 0x2b, 0xfe, 0xd7, 0xab, 0x76,
     0xca, 0x82, 0xc9, 0x7d, 0xfa, 0x59, 0x47, 0xf0, 0xad, 0xd4, 0xa2, 0xaf, 0x9c, 0xa4, 0x72, 0xc0,
     0xb7, 0xfd, 0x93, 0x26, 0x36, 0x3f, 0xf7, 0xcc, 0x34, 0xa5, 0xe5, 0xf1, 0x71, 0xd8, 0x31, 0x15,
     0x04, 0xc7, 0x23, 0xc3, 0x18, 0x96, 0x05, 0x9a, 0x07, 0x12, 0x80, 0xe2, 0xeb, 0x27, 0xb2, 0x75,
     0x09, 0x83, 0x2c, 0x1a, 0x1b, 0x6e, 0x5a, 0xa0, 0x52, 0x3b, 0xd6, 0xb3, 0x29, 0xe3, 0x2f, 0x84,
     0x53, 0xd1, 0x00, 0xed, 0x20, 0xfc, 0xb1, 0x5b, 0x6a, 0xcb, 0xbe, 0x39, 0x4a, 0x4c, 0x58, 0xcf,
     0xd0, 0xef, 0xaa, 0xfb, 0x43, 0x4d, 0x33, 0x85, 0x45, 0xf9, 0x02, 0x7f, 0x50, 0x3c, 0x9f, 0xa8,
     0x51, 0xa3, 0x40, 0x8f, 0x92, 0x9d, 0x38, 0xf5, 0xbc, 0xb6, 0xda, 0x21, 0x10, 0xff, 0xf3, 0xd2,
     0xcd, 0x0c, 0x13, 0xec, 0x5f, 0x97, 0x44, 0x17, 0xc4, 0xa7, 0x7e, 0x3d, 0x64, 0x5d, 0x19, 0x73,
     0x60, 0x81, 0x4f, 0xdc, 0x22, 0x2a, 0x90, 0x88, 0x46, 0xee, 0xb8, 0x14, 0xde, 0x5e, 0x0b, 0xdb,
     0xe0, 0x32, 0x3a, 0x0a, 0x49, 0x06, 0x24, 0x5c, 0xc2, 0xd3, 0xac, 0x62, 0x91, 0x95, 0xe4, 0x79,
     0xe7, 0xc8, 0x37, 0x6d, 0x8d, 0xd5, 0x4e, 0xa9, 0x6c, 0x56, 0xf4, 0xea, 0x65, 0x7a, 0xae, 0x08,
     0xba, 0x78, 0x25, 0x2e, 0x1c, 0xa6, 0xb4, 0xc6, 0xe8, 0xdd, 0x74, 0x1f, 0x4b, 0xbd, 0x8b, 0x8a,
     0x70, 0x3e, 0xb5, 0x66, 0x48, 0x03, 0xf6, 0x0e, 0x61, 0x35, 0x57, 0xb9, 0x86, 0xc1, 0x1d, 0x9e,
     0xe1, 0xf8, 0x98, 0x11, 0x69, 0xd9, 0x8e, 0x94, 0x9b, 0x1e, 0x87, 0xe9, 0xce, 0x55, 0x28, 0xdf,
     0x8c, 0xa1, 0x89, 0x0d, 0xbf, 0xe6, 0x42, 0x68, 0x41, 0x99, 0x2d, 0x0f, 0xb0, 0x54, 0xbb, 0x16]"

definition sbox :: "byte \<Rightarrow> byte" where
  "sbox b = sbox_table ! unat b"

text \<open>Multiplication by \<open>x\<close> in \<open>GF(2^8)\<close> modulo \<open>x^8 + x^4 + x^3 + x + 1\<close>.\<close>

definition xtime :: "byte \<Rightarrow> byte" where
  "xtime a = (if bit a 7 then push_bit 1 a XOR 0x1b else push_bit 1 a)"

definition xor_bytes :: "byte list \<Rightarrow> byte list \<Rightarrow> byte list" where
  "xor_bytes xs ys = map2 (XOR) xs ys"

definition sub_word :: "byte list \<Rightarrow> byte list" where
  "sub_word w = map sbox w"

definition rot_word :: "byte list \<Rightarrow> byte list" where
  "rot_word w = drop 1 w @ take 1 w"

definition rcon :: "nat \<Rightarrow> byte list" where
  "rcon j = [[0x01, 0x02, 0x04, 0x08, 0x10, 0x20, 0x40] ! (j - 1), 0, 0, 0]"

text \<open>The word \<open>w[i]\<close> of the key schedule for \<open>Nk = 8\<close>, from the words before it.\<close>

definition next_word :: "byte list list \<Rightarrow> nat \<Rightarrow> byte list" where
  "next_word w i =
     (let temp = w ! (i - 1);
          temp' = (if i mod 8 = 0 then xor_bytes (sub_word (rot_word temp)) (rcon (i div 8))
                   else if i mod 8 = 4 then sub_word temp
                   else temp)
      in xor_bytes (w ! (i - 8)) temp')"

definition key_expansion :: "Buffer \<Rightarrow> byte list list" where
  "key_expansion key =
     foldl (\<lambda>w i. w @ [next_word w i]) (map (\<lambda>i. take 4 (drop (4 * i) key)) [0..<8]) [8..<60]"

text \<open>A well-formed key schedule: every word has four bytes.\<close>

definition words_ok :: "byte list list \<Rightarrow> bool" where
  "words_ok w = (\<forall>x\<in>set w. length x = 4)"

definition round_key :: "byte list list \<Rightarrow> nat \<Rightarrow> byte list" where
  "round_key w r = concat (take 4 (drop (4 * r) w))"

definition sub_bytes :: "byte list \<Rightarrow> byte list" where
  "sub_bytes s = map sbox s"

definition shift_rows :: "byte list \<Rightarrow> byte list" where
  "shift_rows s = map (\<lambda>i. s ! i) [0, 5, 10, 15, 4, 9, 14, 3, 8, 13, 2, 7, 12, 1, 6, 11]"

fun mix_columns :: "byte list \<Rightarrow> byte list" where
  "mix_columns (a0 # a1 # a2 # a3 # rest) =
     [xtime a0 XOR (xtime a1 XOR a1) XOR a2 XOR a3,
      a0 XOR xtime a1 XOR (xtime a2 XOR a2) XOR a3,
      a0 XOR a1 XOR xtime a2 XOR (xtime a3 XOR a3),
      (xtime a0 XOR a0) XOR a1 XOR a2 XOR xtime a3] @ mix_columns rest"
| "mix_columns _ = []"

definition aes_round :: "byte list list \<Rightarrow> byte list \<Rightarrow> nat \<Rightarrow> byte list" where
  "aes_round w s r = xor_bytes (mix_columns (shift_rows (sub_bytes s))) (round_key w r)"

definition cipher :: "byte list list \<Rightarrow> byte list \<Rightarrow> byte list" where
  "cipher w inp =
     xor_bytes
       (shift_rows (sub_bytes (foldl (aes_round w) (xor_bytes inp (round_key w 0)) [1..<14])))
       (round_key w 14)"

subsection \<open>GCM with a 96-bit IV, a 128-bit tag and no associated data (NIST SP 800-38D)\<close>

text \<open>
  A block of 128 bits is read as a number, its first bit the most significant. The product
  in \<open>GF(2^128)\<close> is Algorithm 1 of the standard: \<open>z\<close> accumulates, \<open>v\<close> is shifted right and
  reduced by \<open>R = 11100001 || 0^120\<close>.
\<close>

type_synonym block = nat

definition block_of_bytes :: "byte list \<Rightarrow> block" where
  "block_of_bytes bs = foldl (\<lambda>x b. 256 * x + unat b) 0 bs"

definition bytes_of_block :: "block \<Rightarrow> byte list" where
  "bytes_of_block x = map (\<lambda>i. of_nat (x div 256 ^ (15 - i) mod 256)) [0..<16]"

definition gf_mul_step :: "block \<Rightarrow> block \<times> block \<Rightarrow> nat \<Rightarrow> block \<times> block" where
  "gf_mul_step x zv i =
     (if bit x (127 - i) then fst zv XOR snd zv else fst zv,
      if odd (snd zv) then (snd zv div 2) XOR 0xE1000000000000000000000000000000
      else snd zv div 2)"

definition gf_mul :: "block \<Rightarrow> block \<Rightarrow> block" where
  "gf_mul x y = fst (foldl (gf_mul_step x) (0, y) [0..<128])"

definition ghash :: "block \<Rightarrow> block list \<Rightarrow> block" where
  "ghash h xs = foldl (\<lambda>y x. gf_mul (y XOR x) h) 0 xs"

text \<open>The blocks of a byte string, the last one padded with zero bytes.\<close>

fun blocks :: "nat \<Rightarrow> byte list \<Rightarrow> block list" where
  "blocks 0 bs = []"
| "blocks (Suc n) bs =
     block_of_bytes (take 16 bs @ replicate (16 - length (take 16 bs)) 0) # blocks n (drop 16 bs)"

text \<open>
  The counter block: the IV followed by a 32-bit big-endian counter (\<open>inc32\<close> wraps
  modulo \<open>2^32\<close>). Counter 1 is \<open>J0\<close>, which masks the tag; data block \<open>i\<close> uses counter
  \<open>i + 2\<close>.
\<close>

definition ctr_block :: "Buffer \<Rightarrow> nat \<Rightarrow> byte list" where
  "ctr_block iv c =
     iv @ [of_nat (c div 16777216 mod 256), of_nat (c div 65536 mod 256),
           of_nat (c div 256 mod 256), of_nat (c mod 256)]"

definition keystream :: "Buffer \<Rightarrow> Buffer \<Rightarrow> nat \<Rightarrow> byte list" where
  "keystream key iv n =
     concat (map (\<lambda>i. cipher (key_expansion key) (ctr_block iv ((i + 2) mod 4294967296))) [0..<n])"

definition gctr :: "Buffer \<Rightarrow> Buffer \<Rightarrow> Buffer \<Rightarrow> Buffer" where
  "gctr key iv dat = xor_bytes dat (keystream key iv ((length dat + 15) div 16))"

definition gcm_tag :: "Buffer \<Rightarrow> Buffer \<Rightarrow> Buffer \<Rightarrow> Buffer" where
  "gcm_tag key iv ct =
     (let h = block_of_bytes (cipher (key_expansion key) (replicate 16 0));
          s = ghash h (blocks ((length ct + 15) div 16) ct @ [(8 * length ct) mod 18446744073709551616])
      in bytes_of_block (s XOR block_of_bytes (cipher (key_expansion key) (ctr_block iv 1))))"

subsection \<open>\<open>encrypt\<close> and \<open>decrypt\<close>\<close>

text \<open>
  The errors: \<open>InvalidKeyLength\<close> is the \<open>RangeError\<close> of \<open>createCipheriv\<close> and
  \<open>createDecipheriv\<close> for a key that is not 32 bytes long (AES-256), \<open>BlobTooShort\<close> is
  "Invalid encrypted blob: too short", \<open>AuthFailed\<close> is the error \<open>decipher.final()\<close>
  throws when the tag does not verify. \<open>decipher.update\<close> runs before \<open>final\<close>, but its
  bytes are only an element of the array literal under construction: when \<open>final\<close> throws,
  \<open>Buffer.concat\<close> is never called and nothing is returned. The nonce
  \<open>crypto.randomBytes(IV_LENGTH)\<close> is the argument \<open>iv\<close> of \<open>encrypt\<close>. GCM's bound of
  \<open>2^36 - 32\<close> bytes on a message is beyond what a \<open>Buffer\<close> holds and is not modelled.
\<close>

datatype crypto_error = InvalidKeyLength | BlobTooShort | AuthFailed

definition IV_LENGTH :: nat where "IV_LENGTH = 12"
definition AUTH_TAG_LENGTH :: nat where "AUTH_TAG_LENGTH = 16"

definition encrypt :: "Buffer \<Rightarrow> Buffer \<Rightarrow> Buffer \<Rightarrow> crypto_error + Buffer" where
  "encrypt iv plaintext key =
     (if length key \<noteq> 32 then Inl InvalidKeyLength
      else let encrypted = gctr key iv plaintext;
               authTag = gcm_tag key iv encrypted
           in Inr (iv @ encrypted @ authTag))"

definition decrypt :: "Buffer \<Rightarrow> Buffer \<Rightarrow> crypto_error + Buffer" where
  "decrypt blob key =
     (if length blob < IV_LENGTH + AUTH_TAG_LENGTH then Inl BlobTooShort
      else let iv = take IV_LENGTH blob;
               authTag = drop (length blob - AUTH_TAG_LENGTH) blob;
               ciphertext = take (length blob - AUTH_TAG_LENGTH - IV_LENGTH) (drop IV_LENGTH blob)
           in if length key \<noteq> 32 then Inl InvalidKeyLength
              else if gcm_tag key iv ciphertext \<noteq> authTag then Inl AuthFailed
              else Inr (gctr key iv ciphertext))"

subsection \<open>Test data\<close>

text \<open>
  The key and plaintext of FIPS 197, Appendix C.3; the all-zero key, IV and block of test
  case 14 of the GCM specification; and a second key with a plaintext whose envelope under
  the zero key verifies under the second key as well. \<open>tampered_blob\<close> is that envelope
  with its last byte changed.
\<close>

definition fips_key :: "Buffer" where
  "fips_key = [0x00, 0x01, 0x02, 0x03, 0x04, 0x05, 0x06, 0x07, 0x08, 0x09, 0x0a, 0x0b, 0x0c, 0x0d, 0x0e, 0x0f, 0x10, 0x11, 0x12, 0x13, 0x14, 0x15, 0x16, 0x17, 0x18, 0x19, 0x1a, 0x1b, 0x1c, 0x1d, 0x1e, 0x1f]"

definition fips_plain :: "Buffer" where
  "fips_plain = [0x00, 0x11, 0x22, 0x33, 0x44, 0x55, 0x66, 0x77, 0x88, 0x99, 0xaa, 0xbb, 0xcc, 0xdd, 0xee, 0xff]"

definition zero_key :: "Buffer" where
  "zero_key = [0x00, 0x00, 0x00, 0x00, 0x00, 0x00, 0x00, 0x00, 0x00, 0x00, 0x00, 0x00, 0x00, 0x00, 0x00, 0x00, 0x00, 0x00, 0x00, 0x00, 0x00, 0x00, 0x00, 0x00, 0x00, 0x00, 0x00, 0x00, 0x00, 0x00, 0x00, 0x00]"

definition other_key :: "Buffer" where
  "other_key = [0x00, 0x00, 0x00, 0x00, 0x00, 0x00, 0x00, 0x00, 0x00, 0x00, 0x00, 0x00, 0x00, 0x00, 0x00, 0x00, 0x00, 0x00, 0x00, 0x00, 0x00, 0x00, 0x00, 0x00, 0x00, 0x00, 0x00, 0x00, 0x00, 0x00, 0x00, 0x01]"

definition zero_iv :: "Buffer" where
  "zero_iv = [0x00, 0x00, 0x00, 0x00, 0x00, 0x00, 0x00, 0x00, 0x00, 0x00, 0x00, 0x00]"

definition zero_block :: "Buffer" where
  "zero_block = [0x00, 0x00, 0x00, 0x00, 0x00, 0x00, 0x00, 0x00, 0x00, 0x00, 0x00, 0x00, 0x00, 0x00, 0x00, 0x00]"

definition collide_plain :: "Buffer" where
  "collide_plain = [0xf0, 0xa9, 0x6d, 0x95, 0x49, 0x20, 0xbb, 0x31, 0x93, 0x74, 0xc0, 0x73, 0xe7, 0xc8, 0x1d, 0x11]"

definition collide_blob :: "Buffer" where
  "collide_blob = [0x00, 0x00, 0x00, 0x00, 0x00, 0x00, 0x00, 0x00, 0x00, 0x00, 0x00, 0x00, 0x3e, 0x0e, 0x2d, 0xa8, 0x04, 0x40, 0xd0, 0x5f, 0x94, 0x3a, 0x05, 0xa0, 0x5d, 0x3b, 0x80, 0x09, 0x02, 0x88, 0x69, 0x59, 0xd2, 0x67, 0x53, 0xae, 0x1a, 0x1a, 0xbc, 0xdb, 0x13, 0xac, 0xfa, 0xab]"

definition collide_plain2 :: "Buffer" where
  "collide_plain2 = [0x67, 0x99, 0x40, 0x07, 0xcc, 0x22, 0x9b, 0x90, 0xc4, 0x1b, 0x44, 0x23, 0x9f, 0x26, 0x0d, 0xf8]"

definition tampered_blob :: "Buffer" where
  "tampered_blob = [0x00, 0x00, 0x00, 0x00, 0x00, 0x00, 0x00, 0x00, 0x00, 0x00, 0x00, 0x00, 0x3e, 0x0e, 0x2d, 0xa8, 0x04, 0x40, 0xd0, 0x5f, 0x94, 0x3a, 0x05, 0xa0, 0x5d, 0x3b, 0x80, 0x09, 0x02, 0x88, 0x69, 0x59, 0xd2, 0x67, 0x53, 0xae, 0x1a, 0x1a, 0xbc, 0xdb, 0x13, 0xac, 0xfa, 0xac]"

definition fips_schedule :: "byte list list" where
  "fips_schedule = key_expansion fips_key"

definition zero_schedule :: "byte list list" where
  "zero_schedule = key_expansion zero_key"

definition other_schedule :: "byte list list" where
  "other_schedule = key_expansion other_key"

section \<open>Properties of the store\<close>

subsection \<open>The invariant\<close>

lemma store_inv_new: "store_inv (new_store m t)"
  by (simp add: store_inv_def new_store_def)

lemma store_inv_put: "store_inv s \<Longrightarrow> store_inv (snd (put now i d m s))"
  by (simp add: store_inv_def put_def distinct_update)

lemma store_inv_get: "store_inv s \<Longrightarrow> store_inv (snd (get i s))"
  by (simp add: store_inv_def get_def distinct_delete split: option.split)

lemma store_inv_delete: "store_inv s \<Longrightarrow> store_inv (snd (delete i s))"
  by (simp add: store_inv_def delete_def distinct_delete)

subsection \<open>What the sweep computes\<close>

lemma cleanup_loop_eq:
  "cleanup_loop now todo s r =
     (r + length (filter (\<lambda>p. now - createdAt (snd p) > ttlMs s) todo),
      s\<lparr>entries := filter (\<lambda>p. fst p \<notin> fst ` set (filter (\<lambda>p. now - createdAt (snd p) > ttlMs s) todo))
                       (entries s)\<rparr>)"
proof (induction todo arbitrary: s r)
  case Nil
  then show ?case by simp
next
  case (Cons p todo)
  obtain i e where p: "p = (i, e)" by (cases p)
  show ?case
  proof (cases "now - createdAt e > ttlMs s")
    case True
    have "filter (\<lambda>q. fst q \<notin> fst ` set (filter (\<lambda>p. now - createdAt (snd p) > ttlMs s) todo))
            (AList.delete i (entries s))
        = filter (\<lambda>q. fst q \<notin> insert i (fst ` set (filter (\<lambda>p. now - createdAt (snd p) > ttlMs s) todo)))
            (entries s)"
      by (auto simp: AList.delete_eq intro!: filter_cong)
    with True show ?thesis
      by (simp add: p Cons.IH)
  next
    case False
    then show ?thesis by (simp add: p Cons.IH)
  qed
qed

lemma filter_keys_distinct:
  assumes "distinct (map fst xs)"
  shows "filter (\<lambda>p. fst p \<notin> fst ` set (filter P xs)) xs = filter (\<lambda>p. \<not> P p) xs"
proof (rule filter_cong[OF refl])
  fix p assume p: "p \<in> set xs"
  have "fst p \<in> fst ` set (filter P xs) \<longleftrightarrow> P p"
  proof
    assume "fst p \<in> fst ` set (filter P xs)"
    then obtain q where q: "q \<in> set xs" "P q" "fst q = fst p" by auto
    from assms p q(1,3) have "q = p"
      by (metis eq_key_imp_eq_value prod.collapse)
    with q show "P p" by simp
  next
    assume "P p" with p show "fst p \<in> fst ` set (filter P xs)" by auto
  qed
  then show "(fst p \<notin> fst ` set (filter P xs)) = (\<not> P p)" by simp
qed

lemma cleanup_eq:
  assumes "store_inv s"
  shows "cleanup now s =
     (length (filter (\<lambda>p. age now (snd p) > ttlMs s) (entries s)),
      s\<lparr>entries := filter (\<lambda>p. \<not> age now (snd p) > ttlMs s) (entries s)\<rparr>)"
  using assms filter_keys_distinct[of "entries s" "\<lambda>p. now - createdAt (snd p) > ttlMs s"]
  by (simp add: cleanup_def cleanup_loop_eq store_inv_def age_def)

lemma store_inv_cleanup: "store_inv s \<Longrightarrow> store_inv (snd (cleanup now s))"
  by (simp add: cleanup_eq) (simp add: store_inv_def distinct_map_filter)

subsection \<open>Claims about the store\<close>

text \<open>
  C1, as stated, fails. The claim: for every identifier whose stored entry is logically
  expired (age at least the TTL), \<open>get\<close> returns absent even before the sweep has removed
  the entry. In \<open>store0\<close> the entry of \<open>''ab''\<close> was created at time 0 with a TTL of 10;
  at time 1000 it is expired, and \<open>get\<close>, which never reads the clock, returns it.
\<close>

theorem get_expired_counterexample:
  "map_of (entries store0) ''ab'' = Some entry0 \<and> expired 1000 store0 entry0
   \<and> fst (get ''ab'' store0) = Some entry0"
  by (simp add: get_def store0_def entry0_def expired_def age_def)

text \<open>
  C1, amended: \<open>get\<close> does not look at the age. It returns the entry stored under the
  identifier whatever its age; an entry older than the TTL (age \<open>> ttlMs\<close>) is absent from
  \<open>get\<close> once a sweep has run.
\<close>

theorem get_ignores_age:
  assumes "store_inv s" and "map_of (entries s) i = Some e"
  shows "fst (get i s) = Some e
       \<and> (age now e > ttlMs s \<longrightarrow> fst (get i (snd (cleanup now s))) = None)"
proof -
  have a: "fst (get i s) = Some e" using assms(2) by (simp add: get_def)
  have b: "fst (get i (snd (cleanup now s))) = None" if old: "age now e > ttlMs s"
  proof -
    have mem: "(i, e) \<in> set (entries s)" using assms(2) by (rule map_of_SomeD)
    have "i \<notin> fst ` set (filter (\<lambda>p. \<not> age now (snd p) > ttlMs s) (entries s))"
    proof
      assume "i \<in> fst ` set (filter (\<lambda>p. \<not> age now (snd p) > ttlMs s) (entries s))"
      then obtain e' where e': "(i, e') \<in> set (entries s)" "\<not> age now e' > ttlMs s" by auto
      from assms(1) mem e'(1) have "e' = e"
        unfolding store_inv_def by (metis eq_key_imp_eq_value)
      with e'(2) old show False by simp
    qed
    then have "map_of (filter (\<lambda>p. \<not> age now (snd p) > ttlMs s) (entries s)) i = None"
      by (simp add: map_of_eq_None_iff)
    then show ?thesis using assms(1) by (simp add: cleanup_eq get_def)
  qed
  from a b show ?thesis by blast
qed

theorem get_ignores_age_witness:
  "store_inv store0 \<and> map_of (entries store0) ''ab'' = Some entry0
   \<and> fst (get ''ab'' store0) = Some entry0
   \<and> age 11 entry0 > ttlMs store0 \<and> fst (get ''ab'' (snd (cleanup 11 store0))) = None"
proof -
  have h1: "store_inv store0" by (simp add: store_inv_def store0_def)
  have h2: "map_of (entries store0) ''ab'' = Some entry0" by (simp add: store0_def)
  have h3: "age 11 entry0 > ttlMs store0" by (simp add: age_def entry0_def store0_def)
  from get_ignores_age [OF h1 h2, of 11] h1 h2 h3 show ?thesis by simp
qed

text \<open>
  C2: a successful \<open>get\<close> removes the entry in the same operation. Next, \<open>get\<close> of the same
  identifier returns absent, \<open>has\<close> is false and \<open>delete\<close> finds nothing: the store maps
  the identifier as it maps one never used, and every other identifier as before. A \<open>put\<close>
  for the identifier is accepted again when its payload is within the size limit.
\<close>

theorem get_destructive:
  assumes "fst (get i s) = Some e"
  shows "map_of (entries s) i = Some e
       \<and> map_of (entries (snd (get i s))) = (map_of (entries s))(i := None)
       \<and> fst (get i (snd (get i s))) = None
       \<and> \<not> has i (snd (get i s))
       \<and> \<not> fst (delete i (snd (get i s)))
       \<and> (\<forall>now d m. int (length d) \<le> maxSize s \<longrightarrow> fst (put now i d m (snd (get i s))) = PutOk)"
proof -
  from assms have stored: "map_of (entries s) i = Some e"
    by (simp add: get_def split: option.splits)
  then have s': "snd (get i s) = s\<lparr>entries := AList.delete i (entries s)\<rparr>"
    by (simp add: get_def)
  have gone: "map_of (entries (snd (get i s))) i = None"
    by (simp add: s' delete_conv')
  show ?thesis
    using stored gone by (simp add: s' delete_conv' get_def has_def delete_def put_def)
qed

theorem get_destructive_witness:
  "fst (get ''ab'' store0) = Some entry0
   \<and> fst (get ''ab'' (snd (get ''ab'' store0))) = None
   \<and> \<not> has ''ab'' (snd (get ''ab'' store0))
   \<and> fst (put 5 ''ab'' [9] None (snd (get ''ab'' store0))) = PutOk"
proof -
  have h: "fst (get ''ab'' store0) = Some entry0" by (simp add: get_def store0_def)
  have sz: "int (length [9::byte]) \<le> maxSize store0" by (simp add: store0_def)
  from get_destructive [OF h] sz h show ?thesis by blast
qed

text \<open>
  C5, as stated, fails. The claim: \<open>put\<close> is rejected as a duplicate exactly when a live
  (not yet expired or removed) entry exists. In \<open>store0\<close> at time 1000 the only entry is
  expired, no live entry exists, and \<open>put\<close> is still rejected as a duplicate.
\<close>

theorem put_expired_counterexample:
  "entries store0 = [(''ab'', entry0)] \<and> expired 1000 store0 entry0
   \<and> put 1000 ''ab'' [7] None store0 = (PutFailed TransferIdExists, store0)"
  by (simp add: put_def store0_def entry0_def expired_def age_def)

text \<open>
  C5, amended: \<open>put\<close> is rejected as too large exactly when the payload is longer than
  the maximum; it is rejected as a duplicate exactly when the payload is within the maximum
  and the store holds an entry for the identifier, expired or not; otherwise it is accepted
  and the entry is stored with the current timestamp, every other identifier keeping its
  entry. A rejected \<open>put\<close> leaves the store unchanged.
\<close>

theorem put_outcomes:
  "((\<exists>n m. fst (put now i d md s) = PutFailed (PayloadTooLarge n m)) \<longleftrightarrow> int (length d) > maxSize s)
   \<and> (fst (put now i d md s) = PutFailed TransferIdExists
        \<longleftrightarrow> int (length d) \<le> maxSize s \<and> has i s)
   \<and> (fst (put now i d md s) = PutOk \<longleftrightarrow> int (length d) \<le> maxSize s \<and> \<not> has i s)
   \<and> (fst (put now i d md s) = PutOk \<longrightarrow>
        map_of (entries (snd (put now i d md s)))
          = (map_of (entries s))(i \<mapsto> \<lparr>data = d, createdAt = now, metadata = md\<rparr>)
        \<and> count (snd (put now i d md s)) = count s + 1)
   \<and> (fst (put now i d md s) \<noteq> PutOk \<longrightarrow> snd (put now i d md s) = s)"
proof -
  have large: "int (length d) > maxSize s \<Longrightarrow>
      put now i d md s = (PutFailed (PayloadTooLarge (length d) (maxSize s)), s)"
    by (simp add: put_def)
  have dup: "int (length d) \<le> maxSize s \<Longrightarrow> has i s \<Longrightarrow>
      put now i d md s = (PutFailed TransferIdExists, s)"
    by (simp add: put_def has_def)
  have ok: "int (length d) \<le> maxSize s \<Longrightarrow> \<not> has i s \<Longrightarrow>
      put now i d md s = (PutOk, s\<lparr>entries :=
         AList.update i \<lparr>data = d, createdAt = now, metadata = md\<rparr> (entries s)\<rparr>)"
    by (simp add: put_def has_def)
  have len: "map_of xs i = None \<Longrightarrow> length (AList.update i v xs) = Suc (length xs)"
    for v and xs :: "(string \<times> TransferEntry) list"
    by (induction xs) (auto split: if_splits)
  show ?thesis
  proof (cases "int (length d) > maxSize s")
    case True
    then show ?thesis by (simp add: large)
  next
    case small: False
    show ?thesis
    proof (cases "has i s")
      case True
      with small show ?thesis by (simp add: dup)
    next
      case False
      with small show ?thesis by (simp add: ok update_conv' count_def len has_def)
    qed
  qed
qed

theorem put_outcomes_witness:
  "fst (put 5 ''cd'' [9] None store0) = PutOk
   \<and> map_of (entries (snd (put 5 ''cd'' [9] None store0))) ''cd''
       = Some \<lparr>data = [9], createdAt = 5, metadata = None\<rparr>
   \<and> map_of (entries (snd (put 5 ''cd'' [9] None store0))) ''ab'' = Some entry0
   \<and> count (snd (put 5 ''cd'' [9] None store0)) = 2
   \<and> fst (put 5 ''ab'' [9] None store0) = PutFailed TransferIdExists
   \<and> snd (put 5 ''ab'' [9] None store0) = store0"
proof -
  have sz: "int (length [9::byte]) \<le> maxSize store0" by (simp add: store0_def)
  have fresh: "\<not> has ''cd'' store0" by (simp add: has_def store0_def)
  have used: "has ''ab'' store0" by (simp add: has_def store0_def)
  have ab: "map_of (entries store0) ''ab'' = Some entry0" by (simp add: store0_def)
  have n: "count store0 = 1" by (simp add: count_def store0_def)
  from put_outcomes [of 5 "''cd''" "[9]" None store0] sz fresh
  have ok: "fst (put 5 ''cd'' [9] None store0) = PutOk"
    and m: "map_of (entries (snd (put 5 ''cd'' [9] None store0)))
          = (map_of (entries store0))(''cd'' \<mapsto> \<lparr>data = [9], createdAt = 5, metadata = None\<rparr>)"
    and c: "count (snd (put 5 ''cd'' [9] None store0)) = count store0 + 1"
    by blast+
  from put_outcomes [of 5 "''ab''" "[9]" None store0] sz used
  have dup: "fst (put 5 ''ab'' [9] None store0) = PutFailed TransferIdExists"
    by blast
  with put_outcomes [of 5 "''ab''" "[9]" None store0]
  have same: "snd (put 5 ''ab'' [9] None store0) = store0"
    by simp
  from ok m c dup same ab n show ?thesis by simp
qed

text \<open>
  C6, as stated, fails. The claim: the sweep removes every entry whose age is at least the
  TTL. In \<open>store0\<close> at time 10 the entry has age 10, the TTL is 10, and the sweep removes
  nothing.
\<close>

theorem cleanup_boundary_counterexample:
  "entries store0 = [(''ab'', entry0)] \<and> age 10 entry0 \<ge> ttlMs store0
   \<and> cleanup 10 store0 = (0, store0)"
  by (simp add: cleanup_def store0_def entry0_def age_def)

text \<open>
  C6, amended: the sweep removes exactly the entries whose age is greater than the TTL
  (\<open>now - createdAt > ttlMs\<close>); entries of age up to and including the TTL stay, unchanged
  and in their order; the number returned is the number of entries removed.
\<close>

theorem cleanup_removes_older:
  assumes "store_inv s"
  shows "entries (snd (cleanup now s)) = filter (\<lambda>p. age now (snd p) \<le> ttlMs s) (entries s)
       \<and> fst (cleanup now s) = length (filter (\<lambda>p. age now (snd p) > ttlMs s) (entries s))
       \<and> count s = count (snd (cleanup now s)) + fst (cleanup now s)
       \<and> maxSize (snd (cleanup now s)) = maxSize s \<and> ttlMs (snd (cleanup now s)) = ttlMs s"
proof -
  have le: "(\<lambda>p. \<not> age now (snd p) > ttlMs s) = (\<lambda>p. age now (snd p) \<le> ttlMs s)"
    by (auto simp: not_less)
  have "length (entries s)
      = length (filter (\<lambda>p. age now (snd p) > ttlMs s) (entries s))
      + length (filter (\<lambda>p. \<not> age now (snd p) > ttlMs s) (entries s))"
    by (rule sum_length_filter_compl [symmetric])
  then show ?thesis
    using cleanup_eq [OF assms, of now] by (simp add: le count_def)
qed

theorem cleanup_removes_older_witness:
  "store_inv store0
   \<and> entries (snd (cleanup 11 store0)) = [] \<and> fst (cleanup 11 store0) = 1
   \<and> entries (snd (cleanup 10 store0)) = [(''ab'', entry0)] \<and> fst (cleanup 10 store0) = 0"
proof -
  have h: "store_inv store0" by (simp add: store_inv_def store0_def)
  from cleanup_removes_older [OF h, of 11] cleanup_removes_older [OF h, of 10] h
  show ?thesis by (simp add: store0_def entry0_def age_def)
qed

section \<open>Properties of the transfer codes\<close>

subsection \<open>The scan accepts the language of the regular expression\<close>

lemma not_digit_dash: "\<not> is_digit CHR ''-''" by (simp add: is_digit_def)
lemma not_lower_dash: "\<not> is_lower CHR ''-''" by (simp add: is_lower_def)

lemma match_code_Some_iff:
  "match_code s = Some (d, w1, w2) \<longleftrightarrow>
     s = d @ ''-'' @ w1 @ ''-'' @ w2
     \<and> d \<noteq> [] \<and> list_all is_digit d
     \<and> w1 \<noteq> [] \<and> list_all is_lower w1
     \<and> w2 \<noteq> [] \<and> list_all is_lower w2"
proof
  assume m: "match_code s = Some (d, w1, w2)"
  let ?r1 = "dropWhile is_digit s"
  from m have d: "d = takeWhile is_digit s" "d \<noteq> []"
    by (auto simp: match_code_def Let_def split: if_splits list.splits)
  from m obtain r2 where r1: "?r1 = CHR ''-'' # r2"
    by (auto simp: match_code_def Let_def split: if_splits list.splits)
  from m r1 have w1: "w1 = takeWhile is_lower r2" "w1 \<noteq> []"
    by (auto simp: match_code_def Let_def split: if_splits list.splits)
  from m r1 have r3: "dropWhile is_lower r2 = CHR ''-'' # w2" and w2: "w2 \<noteq> []" "list_all is_lower w2"
    by (auto simp: match_code_def Let_def split: if_splits list.splits)
  have "s = takeWhile is_digit s @ ?r1" by simp
  also have "?r1 = CHR ''-'' # (takeWhile is_lower r2 @ dropWhile is_lower r2)" using r1 by simp
  finally have "s = d @ ''-'' @ w1 @ ''-'' @ w2" using d w1 r3 by simp
  moreover have "list_all is_digit d" using d by (simp add: list_all_iff) (meson set_takeWhileD)
  moreover have "list_all is_lower w1" using w1 by (simp add: list_all_iff) (meson set_takeWhileD)
  ultimately show "s = d @ ''-'' @ w1 @ ''-'' @ w2
     \<and> d \<noteq> [] \<and> list_all is_digit d
     \<and> w1 \<noteq> [] \<and> list_all is_lower w1
     \<and> w2 \<noteq> [] \<and> list_all is_lower w2" using d w1 w2 by simp
next
  assume a: "s = d @ ''-'' @ w1 @ ''-'' @ w2
     \<and> d \<noteq> [] \<and> list_all is_digit d
     \<and> w1 \<noteq> [] \<and> list_all is_lower w1
     \<and> w2 \<noteq> [] \<and> list_all is_lower w2"
  then have s: "s = d @ CHR ''-'' # (w1 @ CHR ''-'' # w2)" by simp
  from a have dd: "\<forall>c\<in>set d. is_digit c" and ww: "\<forall>c\<in>set w1. is_lower c"
    by (simp_all add: list_all_iff)
  have t1: "takeWhile is_digit s = d" unfolding s using dd not_digit_dash
    by (simp add: takeWhile_tail)
  have d1: "dropWhile is_digit s = CHR ''-'' # (w1 @ CHR ''-'' # w2)" unfolding s using dd not_digit_dash
    by (simp add: dropWhile_append3)
  have t2: "takeWhile is_lower (w1 @ CHR ''-'' # w2) = w1" using ww not_lower_dash
    by (simp add: takeWhile_tail)
  have d2: "dropWhile is_lower (w1 @ CHR ''-'' # w2) = CHR ''-'' # w2" using ww not_lower_dash
    by (simp add: dropWhile_append3)
  from a have ne: "d \<noteq> []" "w1 \<noteq> []" "w2 \<noteq> []" "list_all is_lower w2" by simp_all
  show "match_code s = Some (d, w1, w2)"
    unfolding match_code_def t1 d1 using ne by (simp add: t2 d2)
qed


lemma parseCode_Some_iff:
  "parseCode s = Some r \<longleftrightarrow>
     (\<exists>d w1 w2. s = d @ ''-'' @ w1 @ ''-'' @ w2
        \<and> d \<noteq> [] \<and> list_all is_digit d
        \<and> w1 \<noteq> [] \<and> list_all is_lower w1
        \<and> w2 \<noteq> [] \<and> list_all is_lower w2
        \<and> 1 \<le> parseInt d \<and> parseInt d \<le> 999
        \<and> r = \<lparr>number = parseInt d, word1 = w1, word2 = w2\<rparr>)"
proof
  assume p: "parseCode s = Some r"
  then obtain d w1 w2 where m: "match_code s = Some (d, w1, w2)"
    by (auto simp: parseCode_def split: option.splits)
  with p have "1 \<le> parseInt d \<and> parseInt d \<le> 999 \<and> r = \<lparr>number = parseInt d, word1 = w1, word2 = w2\<rparr>"
    by (auto simp: parseCode_def Let_def split: if_splits)
  with m show "\<exists>d w1 w2. s = d @ ''-'' @ w1 @ ''-'' @ w2
        \<and> d \<noteq> [] \<and> list_all is_digit d
        \<and> w1 \<noteq> [] \<and> list_all is_lower w1
        \<and> w2 \<noteq> [] \<and> list_all is_lower w2
        \<and> 1 \<le> parseInt d \<and> parseInt d \<le> 999
        \<and> r = \<lparr>number = parseInt d, word1 = w1, word2 = w2\<rparr>"
    unfolding match_code_Some_iff by blast
next
  assume "\<exists>d w1 w2. s = d @ ''-'' @ w1 @ ''-'' @ w2
        \<and> d \<noteq> [] \<and> list_all is_digit d
        \<and> w1 \<noteq> [] \<and> list_all is_lower w1
        \<and> w2 \<noteq> [] \<and> list_all is_lower w2
        \<and> 1 \<le> parseInt d \<and> parseInt d \<le> 999
        \<and> r = \<lparr>number = parseInt d, word1 = w1, word2 = w2\<rparr>"
  then obtain d w1 w2 where shape: "s = d @ ''-'' @ w1 @ ''-'' @ w2
        \<and> d \<noteq> [] \<and> list_all is_digit d
        \<and> w1 \<noteq> [] \<and> list_all is_lower w1
        \<and> w2 \<noteq> [] \<and> list_all is_lower w2"
    and r: "1 \<le> parseInt d" "parseInt d \<le> 999" "r = \<lparr>number = parseInt d, word1 = w1, word2 = w2\<rparr>"
    by blast
  from shape have "match_code s = Some (d, w1, w2)"
    by (rule match_code_Some_iff[THEN iffD2])
  with r show "parseCode s = Some r"
    by (simp add: parseCode_def)
qed

subsection \<open>Claims about the codes\<close>

text \<open>
  C7, as stated, fails. The claim: \<open>parseCode\<close> accepts a string exactly when it matches
  \<open>^\d{1,3}-[a-z]+-[a-z]+$\<close> with the numeric part in \<open>[1, 999]\<close>. The source's expression
  is \<open>\d+\<close>: \<open>0001-a-b\<close> has four digits, and \<open>parseCode\<close> accepts it as the number 1.
\<close>

theorem parseCode_leading_zeros_counterexample:
  "parseCode ''0001-a-b'' = Some \<lparr>number = 1, word1 = ''a'', word2 = ''b''\<rparr>
   \<and> \<not> spec_code_format ''0001-a-b''"
  by (simp add: parseCode_def spec_code_format_def match_code_def parseInt_def is_digit_def is_lower_def Let_def)

text \<open>
  C7, amended: \<open>parseCode\<close> is a total function that returns \<open>None\<close> on bad input, and
  it accepts a string exactly when it is one or more decimal digits, a hyphen, one or more
  lower-case letters, a hyphen and one or more lower-case letters, with the digits' value in
  \<open>[1, 999]\<close> (leading zeros allowed). These are the strings of the specified format
  together with those of more than three digits whose value is in range. It rejects
  \<open>0-a-b\<close>, \<open>1000-a-b\<close>, \<open>abc-a-b\<close>, \<open>1-onlyone\<close> and the empty string, and accepts
  \<open>1-alpha-beta\<close> and \<open>999-zoo-ark\<close>.
\<close>

theorem parseCode_accepts:
  "(parseCode s = Some r \<longleftrightarrow>
     (\<exists>d w1 w2. s = d @ ''-'' @ w1 @ ''-'' @ w2
        \<and> d \<noteq> [] \<and> list_all is_digit d
        \<and> w1 \<noteq> [] \<and> list_all is_lower w1
        \<and> w2 \<noteq> [] \<and> list_all is_lower w2
        \<and> 1 \<le> parseInt d \<and> parseInt d \<le> 999
        \<and> r = \<lparr>number = parseInt d, word1 = w1, word2 = w2\<rparr>))
   \<and> (spec_code_format s \<longleftrightarrow> parseCode s \<noteq> None \<and> length (takeWhile is_digit s) \<le> 3)
   \<and> parseCode ''0-a-b'' = None \<and> parseCode ''1000-a-b'' = None
   \<and> parseCode ''abc-a-b'' = None \<and> parseCode ''1-onlyone'' = None \<and> parseCode [] = None
   \<and> parseCode ''1-alpha-beta'' = Some \<lparr>number = 1, word1 = ''alpha'', word2 = ''beta''\<rparr>
   \<and> parseCode ''999-zoo-ark'' = Some \<lparr>number = 999, word1 = ''zoo'', word2 = ''ark''\<rparr>"
proof -
  have fmt: "spec_code_format s \<longleftrightarrow> parseCode s \<noteq> None \<and> length (takeWhile is_digit s) \<le> 3"
  proof (cases "match_code s")
    case None
    then show ?thesis by (simp add: spec_code_format_def parseCode_def)
  next
    case (Some t)
    obtain d w1 w2 where t: "t = (d, w1, w2)" by (cases t)
    from Some t have "d = takeWhile is_digit s"
      by (auto simp: match_code_def Let_def split: if_splits list.splits)
    with Some t show ?thesis
      by (auto simp: spec_code_format_def parseCode_def Let_def)
  qed
  have ex: "parseCode ''0-a-b'' = None" "parseCode ''1000-a-b'' = None"
    "parseCode ''abc-a-b'' = None" "parseCode ''1-onlyone'' = None" "parseCode [] = None"
    "parseCode ''1-alpha-beta'' = Some \<lparr>number = 1, word1 = ''alpha'', word2 = ''beta''\<rparr>"
    "parseCode ''999-zoo-ark'' = Some \<lparr>number = 999, word1 = ''zoo'', word2 = ''ark''\<rparr>"
    by (simp_all add: parseCode_def match_code_def parseInt_def is_digit_def is_lower_def Let_def)
  show ?thesis using parseCode_Some_iff[of s r] fmt ex by blast
qed

theorem parseCode_accepts_witness:
  "\<exists>d w1 w2. ''42-banana-thunder'' = d @ ''-'' @ w1 @ ''-'' @ w2
        \<and> d \<noteq> [] \<and> list_all is_digit d
        \<and> w1 \<noteq> [] \<and> list_all is_lower w1
        \<and> w2 \<noteq> [] \<and> list_all is_lower w2
        \<and> 1 \<le> parseInt d \<and> parseInt d \<le> 999
        \<and> \<lparr>number = 42, word1 = ''banana'', word2 = ''thunder''\<rparr>
            = \<lparr>number = parseInt d, word1 = w1, word2 = w2\<rparr>"
proof -
  have "parseCode ''42-banana-thunder'' = Some \<lparr>number = 42, word1 = ''banana'', word2 = ''thunder''\<rparr>"
    by (simp add: parseCode_def match_code_def parseInt_def is_digit_def is_lower_def Let_def)
  with parseCode_accepts [of "''42-banana-thunder''" "\<lparr>number = 42, word1 = ''banana'', word2 = ''thunder''\<rparr>"]
  show ?thesis by blast
qed

text \<open>
  C8, as stated, fails. The claim: the check that \<open>receive\<close> applies before deriving keys
  accepts a code only if its two words are unequal and both in the dictionary. The code
  \<open>1-a-a\<close> has two equal words, \<open>a\<close> is not in the dictionary, and the check lets it pass.
\<close>

theorem receive_check_words_counterexample:
  "receive_check ''1-a-a'' = Inr ''1-a-a''
   \<and> parseCode ''1-a-a'' = Some \<lparr>number = 1, word1 = ''a'', word2 = ''a''\<rparr>
   \<and> ''a'' \<notin> set WORDS"
proof -
  have p: "parseCode ''1-a-a'' = Some \<lparr>number = 1, word1 = ''a'', word2 = ''a''\<rparr>"
    by (simp add: parseCode_def match_code_def parseInt_def is_digit_def is_lower_def Let_def)
  have w: "''a'' \<notin> set WORDS"
    by (simp add: WORDS_def)
  from p w show ?thesis by (simp add: receive_check_def isValidCode_def)
qed

text \<open>
  C8, amended: the check that \<open>receive\<close> applies before deriving keys is \<open>isValidCode\<close>,
  which is purely syntactic: it accepts a code exactly when it has the form digits, hyphen,
  lower-case word, hyphen, lower-case word with the number in \<open>[1, 999]\<close>, whether or not
  the words differ or occur in the dictionary; any other code is rejected with
  "Invalid wormhole code" before any key derivation or network call.
\<close>

theorem receive_check_syntactic:
  "(receive_check code = Inr code \<longleftrightarrow>
     (\<exists>d w1 w2. code = d @ ''-'' @ w1 @ ''-'' @ w2
        \<and> d \<noteq> [] \<and> list_all is_digit d
        \<and> w1 \<noteq> [] \<and> list_all is_lower w1
        \<and> w2 \<noteq> [] \<and> list_all is_lower w2
        \<and> 1 \<le> parseInt d \<and> parseInt d \<le> 999))
   \<and> (receive_check code \<noteq> Inr code \<longrightarrow>
        receive_check code = Inl (''Invalid wormhole code: '' @ code))"
proof -
  have "receive_check code = Inr code \<longleftrightarrow> (\<exists>r. parseCode code = Some r)"
    by (auto simp: receive_check_def isValidCode_def)
  then have "receive_check code = Inr code \<longleftrightarrow>
     (\<exists>d w1 w2. code = d @ ''-'' @ w1 @ ''-'' @ w2
        \<and> d \<noteq> [] \<and> list_all is_digit d
        \<and> w1 \<noteq> [] \<and> list_all is_lower w1
        \<and> w2 \<noteq> [] \<and> list_all is_lower w2
        \<and> 1 \<le> parseInt d \<and> parseInt d \<le> 999)"
    unfolding parseCode_Some_iff by blast
  moreover have "receive_check code \<noteq> Inr code \<longrightarrow>
        receive_check code = Inl (''Invalid wormhole code: '' @ code)"
    by (simp add: receive_check_def)
  ultimately show ?thesis by blast
qed

theorem receive_check_syntactic_witness:
  "receive_check ''7-zebra-zebra'' = Inr ''7-zebra-zebra''
   \<and> receive_check ''7-zebra'' = Inl ''Invalid wormhole code: 7-zebra''"
proof -
  have ok: "\<exists>d w1 w2. ''7-zebra-zebra'' = d @ ''-'' @ w1 @ ''-'' @ w2
        \<and> d \<noteq> [] \<and> list_all is_digit d
        \<and> w1 \<noteq> [] \<and> list_all is_lower w1
        \<and> w2 \<noteq> [] \<and> list_all is_lower w2
        \<and> 1 \<le> parseInt d \<and> parseInt d \<le> 999"
    by (rule exI[of _ "''7''"], rule exI[of _ "''zebra''"], rule exI[of _ "''zebra''"])
       (simp add: parseInt_def is_digit_def is_lower_def)
  have bad: "receive_check ''7-zebra'' \<noteq> Inr ''7-zebra''"
    by (simp add: receive_check_def isValidCode_def parseCode_def match_code_def is_digit_def is_lower_def Let_def)
  from receive_check_syntactic [of "''7-zebra-zebra''"] receive_check_syntactic [of "''7-zebra''"] ok bad
  show ?thesis by simp
qed

section \<open>Properties of the envelope cipher\<close>

subsection \<open>Lengths, and the counter mode undoing itself\<close>

lemma length_xor_bytes: "length (xor_bytes xs ys) = min (length xs) (length ys)"
  by (simp add: xor_bytes_def)

lemma xor_bytes_cancel: "length xs \<le> length ys \<Longrightarrow> xor_bytes (xor_bytes xs ys) ys = xs"
proof (induction xs arbitrary: ys)
  case Nil
  then show ?case by (simp add: xor_bytes_def)
next
  case (Cons x xs)
  then obtain y ys' where ys: "ys = y # ys'" by (cases ys) auto
  with Cons.prems have "length xs \<le> length ys'" by simp
  from Cons.IH[OF this] have "xor_bytes (xor_bytes xs ys') ys' = xs" .
  moreover have "(x XOR y) XOR y = x"
    by (metis xor.assoc xor_self_eq xor.right_neutral)
  ultimately show ?case by (simp add: ys xor_bytes_def)
qed

lemma length_next_word:
  assumes "words_ok w" and "8 \<le> i" and "i \<le> length w"
  shows "length (next_word w i) = 4"
proof -
  from assms have a: "length (w ! (i - 1)) = 4" and b: "length (w ! (i - 8)) = 4"
    by (simp_all add: words_ok_def)
  have r: "length (rcon j) = 4" for j by (simp add: rcon_def)
  show ?thesis
    using a b by (simp add: next_word_def Let_def length_xor_bytes sub_word_def rot_word_def r)
qed

lemma expand_inv:
  assumes "words_ok w0" and "8 \<le> length w0" and "length w0 \<le> b"
  shows "words_ok (foldl (\<lambda>w i. w @ [next_word w i]) w0 [length w0..<b])
       \<and> length (foldl (\<lambda>w i. w @ [next_word w i]) w0 [length w0..<b]) = b"
  using assms(3)
proof (induction b)
  case 0
  with assms show ?case by simp
next
  case (Suc b)
  show ?case
  proof (cases "length w0 = Suc b")
    case True
    with assms show ?thesis by simp
  next
    case False
    with Suc.prems have le: "length w0 \<le> b" by simp
    let ?w = "foldl (\<lambda>w i. w @ [next_word w i]) w0 [length w0..<b]"
    from Suc.IH[OF le] have ok: "words_ok ?w" and len: "length ?w = b" by simp_all
    from assms(2) le have "8 \<le> b" by simp
    with ok len have "length (next_word ?w b) = 4"
      by (intro length_next_word) simp_all
    with ok len le show ?thesis
      by (simp add: words_ok_def)
  qed
qed

lemma key_expansion_ok:
  assumes "length key = 32"
  shows "words_ok (key_expansion key) \<and> length (key_expansion key) = 60"
proof -
  let ?w0 = "map (\<lambda>i. take 4 (drop (4 * i) key)) [0..<8]"
  have ok0: "words_ok ?w0"
    unfolding words_ok_def
  proof
    fix x assume "x \<in> set ?w0"
    then obtain i where i: "i < 8" and x: "x = take 4 (drop (4 * i) key)"
      unfolding set_map set_upt by (auto simp only: image_iff atLeastLessThan_iff)
    from i assms show "length x = 4" unfolding x by simp
  qed
  have len0: "length ?w0 = 8" by simp
  have "words_ok (foldl (\<lambda>w i. w @ [next_word w i]) ?w0 [length ?w0..<60])
      \<and> length (foldl (\<lambda>w i. w @ [next_word w i]) ?w0 [length ?w0..<60]) = 60"
    by (rule expand_inv[OF ok0]) simp_all
  then show ?thesis
    unfolding key_expansion_def len0 .
qed

lemma length_concat_const:
  "\<forall>x\<in>set xs. length x = c \<Longrightarrow> length (concat xs) = c * length xs"
  by (induction xs) simp_all

lemma length_round_key:
  assumes "words_ok w" and "length w = 60" and "r \<le> 14"
  shows "length (round_key w r) = 16"
proof -
  have "set (take 4 (drop (4 * r) w)) \<subseteq> set w"
    using set_take_subset set_drop_subset by (rule subset_trans)
  with assms(1) have "\<forall>x\<in>set (take 4 (drop (4 * r) w)). length x = 4"
    unfolding words_ok_def by blast
  from length_concat_const[OF this] assms(2,3) show ?thesis
    by (simp add: round_key_def)
qed

lemma length_cipher:
  assumes "length key = 32"
  shows "length (cipher (key_expansion key) inp) = 16"
proof -
  from key_expansion_ok[OF assms] have "length (round_key (key_expansion key) 14) = 16"
    by (intro length_round_key) simp_all
  then show ?thesis
    by (simp add: cipher_def length_xor_bytes shift_rows_def)
qed

lemma length_keystream:
  assumes "length key = 32"
  shows "length (keystream key iv n) = 16 * n"
  using length_concat_const[of "map (\<lambda>i. cipher (key_expansion key) (ctr_block iv ((i + 2) mod 4294967296))) [0..<n]" 16]
  by (simp add: keystream_def length_cipher[OF assms])

lemma length_gctr:
  assumes "length key = 32"
  shows "length (gctr key iv dat) = length dat"
proof -
  have "length dat \<le> 16 * ((length dat + 15) div 16)" by arith
  then show ?thesis
    by (simp add: gctr_def length_xor_bytes length_keystream[OF assms])
qed

lemma gctr_involution:
  assumes "length key = 32"
  shows "gctr key iv (gctr key iv dat) = dat"
proof -
  have le: "length dat \<le> length (keystream key iv ((length dat + 15) div 16))"
    unfolding length_keystream[OF assms] by arith
  have "gctr key iv (gctr key iv dat)
      = xor_bytes (gctr key iv dat) (keystream key iv ((length dat + 15) div 16))"
    unfolding gctr_def[of key iv "gctr key iv dat"] length_gctr[OF assms] ..
  also have "\<dots> = dat"
    unfolding gctr_def by (rule xor_bytes_cancel[OF le])
  finally show ?thesis .
qed

lemma length_gcm_tag: "length (gcm_tag key iv ct) = 16"
  by (simp add: gcm_tag_def Let_def bytes_of_block_def)

lemma decrypt_envelope:
  assumes "length iv = 12" and "length tag = 16"
  shows "decrypt (iv @ ct @ tag) key =
     (if length key \<noteq> 32 then Inl InvalidKeyLength
      else if gcm_tag key iv ct \<noteq> tag then Inl AuthFailed
      else Inr (gctr key iv ct))"
  using assms by (simp add: decrypt_def IV_LENGTH_def AUTH_TAG_LENGTH_def )


text \<open>
  What \<open>decrypt\<close> returns: bytes exactly when the envelope has at least 28 bytes, the key
  has 32 and the last 16 bytes are the tag of nonce and ciphertext under that key; the bytes
  are then the whole decryption. Every other call ends in an error that carries no bytes.
\<close>

lemma decrypt_returns_iff:
  "decrypt blob key = Inr q \<longleftrightarrow>
     28 \<le> length blob \<and> length key = 32
     \<and> gcm_tag key (take 12 blob) (take (length blob - 28) (drop 12 blob))
         = drop (length blob - 16) blob
     \<and> q = gctr key (take 12 blob) (take (length blob - 28) (drop 12 blob))"
  by (auto simp: decrypt_def IV_LENGTH_def AUTH_TAG_LENGTH_def Let_def split: if_splits)

lemma decrypt_too_short: "length blob < 28 \<Longrightarrow> decrypt blob key = Inl BlobTooShort"
  by (simp add: decrypt_def IV_LENGTH_def AUTH_TAG_LENGTH_def)

lemma decrypt_tag_mismatch:
  assumes "28 \<le> length blob" and "length key = 32"
    and "gcm_tag key (take 12 blob) (take (length blob - 28) (drop 12 blob))
           \<noteq> drop (length blob - 16) blob"
  shows "decrypt blob key = Inl AuthFailed"
  using assms by (simp add: decrypt_def IV_LENGTH_def AUTH_TAG_LENGTH_def Let_def)

text \<open>
  The envelope of one key opened with another: the outcome is decided by whether the
  ciphertext has the same tag under both keys.
\<close>

lemma decrypt_other_key:
  assumes "length k1 = 32" and "length k2 = 32" and "length iv = 12"
  shows "encrypt iv p k1 = Inr (iv @ gctr k1 iv p @ gcm_tag k1 iv (gctr k1 iv p))
       \<and> decrypt (iv @ gctr k1 iv p @ gcm_tag k1 iv (gctr k1 iv p)) k2 =
           (if gcm_tag k2 iv (gctr k1 iv p) = gcm_tag k1 iv (gctr k1 iv p)
            then Inr (gctr k2 iv (gctr k1 iv p)) else Inl AuthFailed)"
proof -
  have "encrypt iv p k1 = Inr (iv @ gctr k1 iv p @ gcm_tag k1 iv (gctr k1 iv p))"
    using assms(1) by (simp add: encrypt_def Let_def)
  moreover have "decrypt (iv @ gctr k1 iv p @ gcm_tag k1 iv (gctr k1 iv p)) k2 =
           (if gcm_tag k2 iv (gctr k1 iv p) = gcm_tag k1 iv (gctr k1 iv p)
            then Inr (gctr k2 iv (gctr k1 iv p)) else Inl AuthFailed)"
    using assms(2) by (simp add: decrypt_envelope[OF assms(3) length_gcm_tag])
  ultimately show ?thesis by blast
qed

lemma gf_mul_zero: "gf_mul 0 y = 0"
proof -
  have "fst (foldl (gf_mul_step 0) (0, v) xs) = 0" for v xs
    by (induction xs arbitrary: v) (simp_all add: gf_mul_step_def)
  then show ?thesis by (simp add: gf_mul_def)
qed

subsection \<open>Evaluating the cipher on the test data\<close>

text \<open>
  The table lookups and the doubling, byte by byte; the key schedules and their round keys;
  then the block encryptions and field products the test data need. Each is computed by
  rewriting with the definitions.
\<close>

lemma sbox_simps:
  "sbox 0x00 = 0x63" "sbox 0x01 = 0x7c" "sbox 0x02 = 0x77" "sbox 0x03 = 0x7b" "sbox 0x04 = 0xf2" "sbox 0x05 = 0x6b" "sbox 0x06 = 0x6f" "sbox 0x07 = 0xc5" "sbox 0x08 = 0x30" "sbox 0x09 = 0x01" "sbox 0x0a = 0x67" "sbox 0x0b = 0x2b" "sbox 0x0c = 0xfe" "sbox 0x0d = 0xd7" "sbox 0x0e = 0xab" "sbox 0x0f = 0x76" "sbox 0x10 = 0xca" "sbox 0x11 = 0x82" "sbox 0x12 = 0xc9" "sbox 0x13 = 0x7d" "sbox 0x14 = 0xfa" "sbox 0x15 = 0x59" "sbox 0x16 = 0x47" "sbox 0x17 = 0xf0" "sbox 0x18 = 0xad" "sbox 0x19 = 0xd4" "sbox 0x1a = 0xa2" "sbox 0x1b = 0xaf" "sbox 0x1c = 0x9c" "sbox 0x1d = 0xa4" "sbox 0x1e = 0x72" "sbox 0x1f = 0xc0" "sbox 0x20 = 0xb7" "sbox 0x21 = 0xfd" "sbox 0x22 = 0x93" "sbox 0x23 = 0x26" "sbox 0x24 = 0x36" "sbox 0x25 = 0x3f" "sbox 0x26 = 0xf7" "sbox 0x27 = 0xcc" "sbox 0x28 = 0x34" "sbox 0x29 = 0xa5" "sbox 0x2a = 0xe5" "sbox 0x2b = 0xf1" "sbox 0x2c = 0x71" "sbox 0x2d = 0xd8" "sbox 0x2e = 0x31" "sbox 0x2f = 0x15" "sbox 0x30 = 0x04" "sbox 0x31 = 0xc7" "sbox 0x32 = 0x23" "sbox 0x33 = 0xc3" "sbox 0x34 = 0x18" "sbox 0x35 = 0x96" "sbox 0x36 = 0x05" "sbox 0x37 = 0x9a" "sbox 0x38 = 0x07" "sbox 0x39 = 0x12" "sbox 0x3a = 0x80" "sbox 0x3b = 0xe2" "sbox 0x3c = 0xeb" "sbox 0x3d = 0x27" "sbox 0x3e = 0xb2" "sbox 0x3f = 0x75" "sbox 0x40 = 0x09" "sbox 0x41 = 0x83" "sbox 0x42 = 0x2c" "sbox 0x43 = 0x1a" "sbox 0x44 = 0x1b" "sbox 0x45 = 0x6e" "sbox 0x46 = 0x5a" "sbox 0x47 = 0xa0" "sbox 0x48 = 0x52" "sbox 0x49 = 0x3b" "sbox 0x4a = 0xd6" "sbox 0x4b = 0xb3" "sbox 0x4c = 0x29" "sbox 0x4d = 0xe3" "sbox 0x4e = 0x2f" "sbox 0x4f = 0x84" "sbox 0x50 = 0x53" "sbox 0x51 = 0xd1" "sbox 0x52 = 0x00" "sbox 0x53 = 0xed" "sbox 0x54 = 0x20" "sbox 0x55 = 0xfc" "sbox 0x56 = 0xb1" "sbox 0x57 = 0x5b" "sbox 0x58 = 0x6a" "sbox 0x59 = 0xcb" "sbox 0x5a = 0xbe" "sbox 0x5b = 0x39" "sbox 0x5c = 0x4a" "sbox 0x5d = 0x4c" "sbox 0x5e = 0x58" "sbox 0x5f = 0xcf" "sbox 0x60 = 0xd0" "sbox 0x61 = 0xef" "sbox 0x62 = 0xaa" "sbox 0x63 = 0xfb" "sbox 0x64 = 0x43" "sbox 0x65 = 0x4d" "sbox 0x66 = 0x33" "sbox 0x67 = 0x85" "sbox 0x68 = 0x45" "sbox 0x69 = 0xf9" "sbox 0x6a = 0x02" "sbox 0x6b = 0x7f" "sbox 0x6c = 0x50" "sbox 0x6d = 0x3c" "sbox 0x6e = 0x9f" "sbox 0x6f = 0xa8" "sbox 0x70 = 0x51" "sbox 0x71 = 0xa3" "sbox 0x72 = 0x40" "sbox 0x73 = 0x8f" "sbox 0x74 = 0x92" "sbox 0x75 = 0x9d" "sbox 0x76 = 0x38" "sbox 0x77 = 0xf5" "sbox 0x78 = 0xbc" "sbox 0x79 = 0xb6" "sbox 0x7a = 0xda" "sbox 0x7b = 0x21" "sbox 0x7c = 0x10" "sbox 0x7d = 0xff" "sbox 0x7e = 0xf3" "sbox 0x7f = 0xd2" "sbox 0x80 = 0xcd" "sbox 0x81 = 0x0c" "sbox 0x82 = 0x13" "sbox 0x83 = 0xec" "sbox 0x84 = 0x5f" "sbox 0x85 = 0x97" "sbox 0x86 = 0x44" "sbox 0x87 = 0x17" "sbox 0x88 = 0xc4" "sbox 0x89 = 0xa7" "sbox 0x8a = 0x7e" "sbox 0x8b = 0x3d" "sbox 0x8c = 0x64" "sbox 0x8d = 0x5d" "sbox 0x8e = 0x19" "sbox 0x8f = 0x73" "sbox 0x90 = 0x60" "sbox 0x91 = 0x81" "sbox 0x92 = 0x4f" "sbox 0x93 = 0xdc" "sbox 0x94 = 0x22" "sbox 0x95 = 0x2a" "sbox 0x96 = 0x90" "sbox 0x97 = 0x88" "sbox 0x98 = 0x46" "sbox 0x99 = 0xee" "sbox 0x9a = 0xb8" "sbox 0x9b = 0x14" "sbox 0x9c = 0xde" "sbox 0x9d = 0x5e" "sbox 0x9e = 0x0b" "sbox 0x9f = 0xdb" "sbox 0xa0 = 0xe0" "sbox 0xa1 = 0x32" "sbox 0xa2 = 0x3a" "sbox 0xa3 = 0x0a" "sbox 0xa4 = 0x49" "sbox 0xa5 = 0x06" "sbox 0xa6 = 0x24" "sbox 0xa7 = 0x5c" "sbox 0xa8 = 0xc2" "sbox 0xa9 = 0xd3" "sbox 0xaa = 0xac" "sbox 0xab = 0x62" "sbox 0xac = 0x91" "sbox 0xad = 0x95" "sbox 0xae = 0xe4" "sbox 0xaf = 0x79" "sbox 0xb0 = 0xe7" "sbox 0xb1 = 0xc8" "sbox 0xb2 = 0x37" "sbox 0xb3 = 0x6d" "sbox 0xb4 = 0x8d" "sbox 0xb5 = 0xd5" "sbox 0xb6 = 0x4e" "sbox 0xb7 = 0xa9" "sbox 0xb8 = 0x6c" "sbox 0xb9 = 0x56" "sbox 0xba = 0xf4" "sbox 0xbb = 0xea" "sbox 0xbc = 0x65" "sbox 0xbd = 0x7a" "sbox 0xbe = 0xae" "sbox 0xbf = 0x08" "sbox 0xc0 = 0xba" "sbox 0xc1 = 0x78" "sbox 0xc2 = 0x25" "sbox 0xc3 = 0x2e" "sbox 0xc4 = 0x1c" "sbox 0xc5 = 0xa6" "sbox 0xc6 = 0xb4" "sbox 0xc7 = 0xc6" "sbox 0xc8 = 0xe8" "sbox 0xc9 = 0xdd" "sbox 0xca = 0x74" "sbox 0xcb = 0x1f" "sbox 0xcc = 0x4b" "sbox 0xcd = 0xbd" "sbox 0xce = 0x8b" "sbox 0xcf = 0x8a" "sbox 0xd0 = 0x70" "sbox 0xd1 = 0x3e" "sbox 0xd2 = 0xb5" "sbox 0xd3 = 0x66" "sbox 0xd4 = 0x48" "sbox 0xd5 = 0x03" "sbox 0xd6 = 0xf6" "sbox 0xd7 = 0x0e" "sbox 0xd8 = 0x61" "sbox 0xd9 = 0x35" "sbox 0xda = 0x57" "sbox 0xdb = 0xb9" "sbox 0xdc = 0x86" "sbox 0xdd = 0xc1" "sbox 0xde = 0x1d" "sbox 0xdf = 0x9e" "sbox 0xe0 = 0xe1" "sbox 0xe1 = 0xf8" "sbox 0xe2 = 0x98" "sbox 0xe3 = 0x11" "sbox 0xe4 = 0x69" "sbox 0xe5 = 0xd9" "sbox 0xe6 = 0x8e" "sbox 0xe7 = 0x94" "sbox 0xe8 = 0x9b" "sbox 0xe9 = 0x1e" "sbox 0xea = 0x87" "sbox 0xeb = 0xe9" "sbox 0xec = 0xce" "sbox 0xed = 0x55" "sbox 0xee = 0x28" "sbox 0xef = 0xdf" "sbox 0xf0 = 0x8c" "sbox 0xf1 = 0xa1" "sbox 0xf2 = 0x89" "sbox 0xf3 = 0x0d" "sbox 0xf4 = 0xbf" "sbox 0xf5 = 0xe6" "sbox 0xf6 = 0x42" "sbox 0xf7 = 0x68" "sbox 0xf8 = 0x41" "sbox 0xf9 = 0x99" "sbox 0xfa = 0x2d" "sbox 0xfb = 0x0f" "sbox 0xfc = 0xb0" "sbox 0xfd = 0x54" "sbox 0xfe = 0xbb" "sbox 0xff = 0x16"
  by (simp_all add: sbox_def sbox_table_def)

lemma xtime_simps:
  "xtime 0x00 = 0x00" "xtime 0x01 = 0x02" "xtime 0x02 = 0x04" "xtime 0x03 = 0x06" "xtime 0x04 = 0x08" "xtime 0x05 = 0x0a" "xtime 0x06 = 0x0c" "xtime 0x07 = 0x0e" "xtime 0x08 = 0x10" "xtime 0x09 = 0x12" "xtime 0x0a = 0x14" "xtime 0x0b = 0x16" "xtime 0x0c = 0x18" "xtime 0x0d = 0x1a" "xtime 0x0e = 0x1c" "xtime 0x0f = 0x1e" "xtime 0x10 = 0x20" "xtime 0x11 = 0x22" "xtime 0x12 = 0x24" "xtime 0x13 = 0x26" "xtime 0x14 = 0x28" "xtime 0x15 = 0x2a" "xtime 0x16 = 0x2c" "xtime 0x17 = 0x2e" "xtime 0x18 = 0x30" "xtime 0x19 = 0x32" "xtime 0x1a = 0x34" "xtime 0x1b = 0x36" "xtime 0x1c = 0x38" "xtime 0x1d = 0x3a" "xtime 0x1e = 0x3c" "xtime 0x1f = 0x3e" "xtime 0x20 = 0x40" "xtime 0x21 = 0x42" "xtime 0x22 = 0x44" "xtime 0x23 = 0x46" "xtime 0x24 = 0x48" "xtime 0x25 = 0x4a" "xtime 0x26 = 0x4c" "xtime 0x27 = 0x4e" "xtime 0x28 = 0x50" "xtime 0x29 = 0x52" "xtime 0x2a = 0x54" "xtime 0x2b = 0x56" "xtime 0x2c = 0x58" "xtime 0x2d = 0x5a" "xtime 0x2e = 0x5c" "xtime 0x2f = 0x5e" "xtime 0x30 = 0x60" "xtime 0x31 = 0x62" "xtime 0x32 = 0x64" "xtime 0x33 = 0x66" "xtime 0x34 = 0x68" "xtime 0x35 = 0x6a" "xtime 0x36 = 0x6c" "xtime 0x37 = 0x6e" "xtime 0x38 = 0x70" "xtime 0x39 = 0x72" "xtime 0x3a = 0x74" "xtime 0x3b = 0x76" "xtime 0x3c = 0x78" "xtime 0x3d = 0x7a" "xtime 0x3e = 0x7c" "xtime 0x3f = 0x7e" "xtime 0x40 = 0x80" "xtime 0x41 = 0x82" "xtime 0x42 = 0x84" "xtime 0x43 = 0x86" "xtime 0x44 = 0x88" "xtime 0x45 = 0x8a" "xtime 0x46 = 0x8c" "xtime 0x47 = 0x8e" "xtime 0x48 = 0x90" "xtime 0x49 = 0x92" "xtime 0x4a = 0x94" "xtime 0x4b = 0x96" "xtime 0x4c = 0x98" "xtime 0x4d = 0x9a" "xtime 0x4e = 0x9c" "xtime 0x4f = 0x9e" "xtime 0x50 = 0xa0" "xtime 0x51 = 0xa2" "xtime 0x52 = 0xa4" "xtime 0x53 = 0xa6" "xtime 0x54 = 0xa8" "xtime 0x55 = 0xaa" "xtime 0x56 = 0xac" "xtime 0x57 = 0xae" "xtime 0x58 = 0xb0" "xtime 0x59 = 0xb2" "xtime 0x5a = 0xb4" "xtime 0x5b = 0xb6" "xtime 0x5c = 0xb8" "xtime 0x5d = 0xba" "xtime 0x5e = 0xbc" "xtime 0x5f = 0xbe" "xtime 0x60 = 0xc0" "xtime 0x61 = 0xc2" "xtime 0x62 = 0xc4" "xtime 0x63 = 0xc6" "xtime 0x64 = 0xc8" "xtime 0x65 = 0xca" "xtime 0x66 = 0xcc" "xtime 0x67 = 0xce" "xtime 0x68 = 0xd0" "xtime 0x69 = 0xd2" "xtime 0x6a = 0xd4" "xtime 0x6b = 0xd6" "xtime 0x6c = 0xd8" "xtime 0x6d = 0xda" "xtime 0x6e = 0xdc" "xtime 0x6f = 0xde" "xtime 0x70 = 0xe0" "xtime 0x71 = 0xe2" "xtime 0x72 = 0xe4" "xtime 0x73 = 0xe6" "xtime 0x74 = 0xe8" "xtime 0x75 = 0xea" "xtime 0x76 = 0xec" "xtime 0x77 = 0xee" "xtime 0x78 = 0xf0" "xtime 0x79 = 0xf2" "xtime 0x7a = 0xf4" "xtime 0x7b = 0xf6" "xtime 0x7c = 0xf8" "xtime 0x7d = 0xfa" "xtime 0x7e = 0xfc" "xtime 0x7f = 0xfe" "xtime 0x80 = 0x1b" "xtime 0x81 = 0x19" "xtime 0x82 = 0x1f" "xtime 0x83 = 0x1d" "xtime 0x84 = 0x13" "xtime 0x85 = 0x11" "xtime 0x86 = 0x17" "xtime 0x87 = 0x15" "xtime 0x88 = 0x0b" "xtime 0x89 = 0x09" "xtime 0x8a = 0x0f" "xtime 0x8b = 0x0d" "xtime 0x8c = 0x03" "xtime 0x8d = 0x01" "xtime 0x8e = 0x07" "xtime 0x8f = 0x05" "xtime 0x90 = 0x3b" "xtime 0x91 = 0x39" "xtime 0x92 = 0x3f" "xtime 0x93 = 0x3d" "xtime 0x94 = 0x33" "xtime 0x95 = 0x31" "xtime 0x96 = 0x37" "xtime 0x97 = 0x35" "xtime 0x98 = 0x2b" "xtime 0x99 = 0x29" "xtime 0x9a = 0x2f" "xtime 0x9b = 0x2d" "xtime 0x9c = 0x23" "xtime 0x9d = 0x21" "xtime 0x9e = 0x27" "xtime 0x9f = 0x25" "xtime 0xa0 = 0x5b" "xtime 0xa1 = 0x59" "xtime 0xa2 = 0x5f" "xtime 0xa3 = 0x5d" "xtime 0xa4 = 0x53" "xtime 0xa5 = 0x51" "xtime 0xa6 = 0x57" "xtime 0xa7 = 0x55" "xtime 0xa8 = 0x4b" "xtime 0xa9 = 0x49" "xtime 0xaa = 0x4f" "xtime 0xab = 0x4d" "xtime 0xac = 0x43" "xtime 0xad = 0x41" "xtime 0xae = 0x47" "xtime 0xaf = 0x45" "xtime 0xb0 = 0x7b" "xtime 0xb1 = 0x79" "xtime 0xb2 = 0x7f" "xtime 0xb3 = 0x7d" "xtime 0xb4 = 0x73" "xtime 0xb5 = 0x71" "xtime 0xb6 = 0x77" "xtime 0xb7 = 0x75" "xtime 0xb8 = 0x6b" "xtime 0xb9 = 0x69" "xtime 0xba = 0x6f" "xtime 0xbb = 0x6d" "xtime 0xbc = 0x63" "xtime 0xbd = 0x61" "xtime 0xbe = 0x67" "xtime 0xbf = 0x65" "xtime 0xc0 = 0x9b" "xtime 0xc1 = 0x99" "xtime 0xc2 = 0x9f" "xtime 0xc3 = 0x9d" "xtime 0xc4 = 0x93" "xtime 0xc5 = 0x91" "xtime 0xc6 = 0x97" "xtime 0xc7 = 0x95" "xtime 0xc8 = 0x8b" "xtime 0xc9 = 0x89" "xtime 0xca = 0x8f" "xtime 0xcb = 0x8d" "xtime 0xcc = 0x83" "xtime 0xcd = 0x81" "xtime 0xce = 0x87" "xtime 0xcf = 0x85" "xtime 0xd0 = 0xbb" "xtime 0xd1 = 0xb9" "xtime 0xd2 = 0xbf" "xtime 0xd3 = 0xbd" "xtime 0xd4 = 0xb3" "xtime 0xd5 = 0xb1" "xtime 0xd6 = 0xb7" "xtime 0xd7 = 0xb5" "xtime 0xd8 = 0xab" "xtime 0xd9 = 0xa9" "xtime 0xda = 0xaf" "xtime 0xdb = 0xad" "xtime 0xdc = 0xa3" "xtime 0xdd = 0xa1" "xtime 0xde = 0xa7" "xtime 0xdf = 0xa5" "xtime 0xe0 = 0xdb" "xtime 0xe1 = 0xd9" "xtime 0xe2 = 0xdf" "xtime 0xe3 = 0xdd" "xtime 0xe4 = 0xd3" "xtime 0xe5 = 0xd1" "xtime 0xe6 = 0xd7" "xtime 0xe7 = 0xd5" "xtime 0xe8 = 0xcb" "xtime 0xe9 = 0xc9" "xtime 0xea = 0xcf" "xtime 0xeb = 0xcd" "xtime 0xec = 0xc3" "xtime 0xed = 0xc1" "xtime 0xee = 0xc7" "xtime 0xef = 0xc5" "xtime 0xf0 = 0xfb" "xtime 0xf1 = 0xf9" "xtime 0xf2 = 0xff" "xtime 0xf3 = 0xfd" "xtime 0xf4 = 0xf3" "xtime 0xf5 = 0xf1" "xtime 0xf6 = 0xf7" "xtime 0xf7 = 0xf5" "xtime 0xf8 = 0xeb" "xtime 0xf9 = 0xe9" "xtime 0xfa = 0xef" "xtime 0xfb = 0xed" "xtime 0xfc = 0xe3" "xtime 0xfd = 0xe1" "xtime 0xfe = 0xe7" "xtime 0xff = 0xe5"
  by (simp_all add: xtime_def)

lemma upt_1_14: "[Suc 0..<14] = [Suc 0, 2, 3, 4, 5, 6, 7, 8, 9, 10, 11, 12, 13]"
  by (simp add: upt_rec)

lemma fips_schedule_eq:
  "fips_schedule =
     [[0x00, 0x01, 0x02, 0x03],
      [0x04, 0x05, 0x06, 0x07],
      [0x08, 0x09, 0x0a, 0x0b],
      [0x0c, 0x0d, 0x0e, 0x0f],
      [0x10, 0x11, 0x12, 0x13],
      [0x14, 0x15, 0x16, 0x17],
      [0x18, 0x19, 0x1a, 0x1b],
      [0x1c, 0x1d, 0x1e, 0x1f],
      [0xa5, 0x73, 0xc2, 0x9f],
      [0xa1, 0x76, 0xc4, 0x98],
      [0xa9, 0x7f, 0xce, 0x93],
      [0xa5, 0x72, 0xc0, 0x9c],
      [0x16, 0x51, 0xa8, 0xcd],
      [0x02, 0x44, 0xbe, 0xda],
      [0x1a, 0x5d, 0xa4, 0xc1],
      [0x06, 0x40, 0xba, 0xde],
      [0xae, 0x87, 0xdf, 0xf0],
      [0x0f, 0xf1, 0x1b, 0x68],
      [0xa6, 0x8e, 0xd5, 0xfb],
      [0x03, 0xfc, 0x15, 0x67],
      [0x6d, 0xe1, 0xf1, 0x48],
      [0x6f, 0xa5, 0x4f, 0x92],
      [0x75, 0xf8, 0xeb, 0x53],
      [0x73, 0xb8, 0x51, 0x8d],
      [0xc6, 0x56, 0x82, 0x7f],
      [0xc9, 0xa7, 0x99, 0x17],
      [0x6f, 0x29, 0x4c, 0xec],
      [0x6c, 0xd5, 0x59, 0x8b],
      [0x3d, 0xe2, 0x3a, 0x75],
      [0x52, 0x47, 0x75, 0xe7],
      [0x27, 0xbf, 0x9e, 0xb4],
      [0x54, 0x07, 0xcf, 0x39],
      [0x0b, 0xdc, 0x90, 0x5f],
      [0xc2, 0x7b, 0x09, 0x48],
      [0xad, 0x52, 0x45, 0xa4],
      [0xc1, 0x87, 0x1c, 0x2f],
      [0x45, 0xf5, 0xa6, 0x60],
      [0x17, 0xb2, 0xd3, 0x87],
      [0x30, 0x0d, 0x4d, 0x33],
      [0x64, 0x0a, 0x82, 0x0a],
      [0x7c, 0xcf, 0xf7, 0x1c],
      [0xbe, 0xb4, 0xfe, 0x54],
      [0x13, 0xe6, 0xbb, 0xf0],
      [0xd2, 0x61, 0xa7, 0xdf],
      [0xf0, 0x1a, 0xfa, 0xfe],
      [0xe7, 0xa8, 0x29, 0x79],
      [0xd7, 0xa5, 0x64, 0x4a],
      [0xb3, 0xaf, 0xe6, 0x40],
      [0x25, 0x41, 0xfe, 0x71],
      [0x9b, 0xf5, 0x00, 0x25],
      [0x88, 0x13, 0xbb, 0xd5],
      [0x5a, 0x72, 0x1c, 0x0a],
      [0x4e, 0x5a, 0x66, 0x99],
      [0xa9, 0xf2, 0x4f, 0xe0],
      [0x7e, 0x57, 0x2b, 0xaa],
      [0xcd, 0xf8, 0xcd, 0xea],
      [0x24, 0xfc, 0x79, 0xcc],
      [0xbf, 0x09, 0x79, 0xe9],
      [0x37, 0x1a, 0xc2, 0x3c],
      [0x6d, 0x68, 0xde, 0x36]]"
  unfolding fips_schedule_def fips_key_def
  by (simp add: key_expansion_def next_word_def xor_bytes_def sub_word_def rot_word_def rcon_def sbox_simps upt_rec)

lemma fips_round_keys:
  "round_key fips_schedule 0 = [0x00, 0x01, 0x02, 0x03, 0x04, 0x05, 0x06, 0x07, 0x08, 0x09, 0x0a, 0x0b, 0x0c, 0x0d, 0x0e, 0x0f]" "round_key fips_schedule (Suc 0) = [0x10, 0x11, 0x12, 0x13, 0x14, 0x15, 0x16, 0x17, 0x18, 0x19, 0x1a, 0x1b, 0x1c, 0x1d, 0x1e, 0x1f]" "round_key fips_schedule 2 = [0xa5, 0x73, 0xc2, 0x9f, 0xa1, 0x76, 0xc4, 0x98, 0xa9, 0x7f, 0xce, 0x93, 0xa5, 0x72, 0xc0, 0x9c]" "round_key fips_schedule 3 = [0x16, 0x51, 0xa8, 0xcd, 0x02, 0x44, 0xbe, 0xda, 0x1a, 0x5d, 0xa4, 0xc1, 0x06, 0x40, 0xba, 0xde]" "round_key fips_schedule 4 = [0xae, 0x87, 0xdf, 0xf0, 0x0f, 0xf1, 0x1b, 0x68, 0xa6, 0x8e, 0xd5, 0xfb, 0x03, 0xfc, 0x15, 0x67]" "round_key fips_schedule 5 = [0x6d, 0xe1, 0xf1, 0x48, 0x6f, 0xa5, 0x4f, 0x92, 0x75, 0xf8, 0xeb, 0x53, 0x73, 0xb8, 0x51, 0x8d]" "round_key fips_schedule 6 = [0xc6, 0x56, 0x82, 0x7f, 0xc9, 0xa7, 0x99, 0x17, 0x6f, 0x29, 0x4c, 0xec, 0x6c, 0xd5, 0x59, 0x8b]" "round_key fips_schedule 7 = [0x3d, 0xe2, 0x3a, 0x75, 0x52, 0x47, 0x75, 0xe7, 0x27, 0xbf, 0x9e, 0xb4, 0x54, 0x07, 0xcf, 0x39]" "round_key fips_schedule 8 = [0x0b, 0xdc, 0x90, 0x5f, 0xc2, 0x7b, 0x09, 0x48, 0xad, 0x52, 0x45, 0xa4, 0xc1, 0x87, 0x1c, 0x2f]" "round_key fips_schedule 9 = [0x45, 0xf5, 0xa6, 0x60, 0x17, 0xb2, 0xd3, 0x87, 0x30, 0x0d, 0x4d, 0x33, 0x64, 0x0a, 0x82, 0x0a]" "round_key fips_schedule 10 = [0x7c, 0xcf, 0xf7, 0x1c, 0xbe, 0xb4, 0xfe, 0x54, 0x13, 0xe6, 0xbb, 0xf0, 0xd2, 0x61, 0xa7, 0xdf]" "round_key fips_schedule 11 = [0xf0, 0x1a, 0xfa, 0xfe, 0xe7, 0xa8, 0x29, 0x79, 0xd7, 0xa5, 0x64, 0x4a, 0xb3, 0xaf, 0xe6, 0x40]" "round_key fips_schedule 12 = [0x25, 0x41, 0xfe, 0x71, 0x9b, 0xf5, 0x00, 0x25, 0x88, 0x13, 0xbb, 0xd5, 0x5a, 0x72, 0x1c, 0x0a]" "round_key fips_schedule 13 = [0x4e, 0x5a, 0x66, 0x99, 0xa9, 0xf2, 0x4f, 0xe0, 0x7e, 0x57, 0x2b, 0xaa, 0xcd, 0xf8, 0xcd, 0xea]" "round_key fips_schedule 14 = [0x24, 0xfc, 0x79, 0xcc, 0xbf, 0x09, 0x79, 0xe9, 0x37, 0x1a, 0xc2, 0x3c, 0x6d, 0x68, 0xde, 0x36]"
  by (simp_all add: round_key_def fips_schedule_eq)

lemma zero_schedule_eq:
  "zero_schedule =
     [[0x00, 0x00, 0x00, 0x00],
      [0x00, 0x00, 0x00, 0x00],
      [0x00, 0x00, 0x00, 0x00],
      [0x00, 0x00, 0x00, 0x00],
      [0x00, 0x00, 0x00, 0x00],
      [0x00, 0x00, 0x00, 0x00],
      [0x00, 0x00, 0x00, 0x00],
      [0x00, 0x00, 0x00, 0x00],
      [0x62, 0x63, 0x63, 0x63],
      [0x62, 0x63, 0x63, 0x63],
      [0x62, 0x63, 0x63, 0x63],
      [0x62, 0x63, 0x63, 0x63],
      [0xaa, 0xfb, 0xfb, 0xfb],
      [0xaa, 0xfb, 0xfb, 0xfb],
      [0xaa, 0xfb, 0xfb, 0xfb],
      [0xaa, 0xfb, 0xfb, 0xfb],
      [0x6f, 0x6c, 0x6c, 0xcf],
      [0x0d, 0x0f, 0x0f, 0xac],
      [0x6f, 0x6c, 0x6c, 0xcf],
      [0x0d, 0x0f, 0x0f, 0xac],
      [0x7d, 0x8d, 0x8d, 0x6a],
      [0xd7, 0x76, 0x76, 0x91],
      [0x7d, 0x8d, 0x8d, 0x6a],
      [0xd7, 0x76, 0x76, 0x91],
      [0x53, 0x54, 0xed, 0xc1],
      [0x5e, 0x5b, 0xe2, 0x6d],
      [0x31, 0x37, 0x8e, 0xa2],
      [0x3c, 0x38, 0x81, 0x0e],
      [0x96, 0x8a, 0x81, 0xc1],
      [0x41, 0xfc, 0xf7, 0x50],
      [0x3c, 0x71, 0x7a, 0x3a],
      [0xeb, 0x07, 0x0c, 0xab],
      [0x9e, 0xaa, 0x8f, 0x28],
      [0xc0, 0xf1, 0x6d, 0x45],
      [0xf1, 0xc6, 0xe3, 0xe7],
      [0xcd, 0xfe, 0x62, 0xe9],
      [0x2b, 0x31, 0x2b, 0xdf],
      [0x6a, 0xcd, 0xdc, 0x8f],
      [0x56, 0xbc, 0xa6, 0xb5],
      [0xbd, 0xbb, 0xaa, 0x1e],
      [0x64, 0x06, 0xfd, 0x52],
      [0xa4, 0xf7, 0x90, 0x17],
      [0x55, 0x31, 0x73, 0xf0],
      [0x98, 0xcf, 0x11, 0x19],
      [0x6d, 0xbb, 0xa9, 0x0b],
      [0x07, 0x76, 0x75, 0x84],
      [0x51, 0xca, 0xd3, 0x31],
      [0xec, 0x71, 0x79, 0x2f],
      [0xe7, 0xb0, 0xe8, 0x9c],
      [0x43, 0x47, 0x78, 0x8b],
      [0x16, 0x76, 0x0b, 0x7b],
      [0x8e, 0xb9, 0x1a, 0x62],
      [0x74, 0xed, 0x0b, 0xa1],
      [0x73, 0x9b, 0x7e, 0x25],
      [0x22, 0x51, 0xad, 0x14],
      [0xce, 0x20, 0xd4, 0x3b],
      [0x10, 0xf8, 0x0a, 0x17],
      [0x53, 0xbf, 0x72, 0x9c],
      [0x45, 0xc9, 0x79, 0xe7],
      [0xcb, 0x70, 0x63, 0x85]]"
  unfolding zero_schedule_def zero_key_def
  by (simp add: key_expansion_def next_word_def xor_bytes_def sub_word_def rot_word_def rcon_def sbox_simps upt_rec)

lemma zero_round_keys:
  "round_key zero_schedule 0 = [0x00, 0x00, 0x00, 0x00, 0x00, 0x00, 0x00, 0x00, 0x00, 0x00, 0x00, 0x00, 0x00, 0x00, 0x00, 0x00]" "round_key zero_schedule (Suc 0) = [0x00, 0x00, 0x00, 0x00, 0x00, 0x00, 0x00, 0x00, 0x00, 0x00, 0x00, 0x00, 0x00, 0x00, 0x00, 0x00]" "round_key zero_schedule 2 = [0x62, 0x63, 0x63, 0x63, 0x62, 0x63, 0x63, 0x63, 0x62, 0x63, 0x63, 0x63, 0x62, 0x63, 0x63, 0x63]" "round_key zero_schedule 3 = [0xaa, 0xfb, 0xfb, 0xfb, 0xaa, 0xfb, 0xfb, 0xfb, 0xaa, 0xfb, 0xfb, 0xfb, 0xaa, 0xfb, 0xfb, 0xfb]" "round_key zero_schedule 4 = [0x6f, 0x6c, 0x6c, 0xcf, 0x0d, 0x0f, 0x0f, 0xac, 0x6f, 0x6c, 0x6c, 0xcf, 0x0d, 0x0f, 0x0f, 0xac]" "round_key zero_schedule 5 = [0x7d, 0x8d, 0x8d, 0x6a, 0xd7, 0x76, 0x76, 0x91, 0x7d, 0x8d, 0x8d, 0x6a, 0xd7, 0x76, 0x76, 0x91]" "round_key zero_schedule 6 = [0x53, 0x54, 0xed, 0xc1, 0x5e, 0x5b, 0xe2, 0x6d, 0x31, 0x37, 0x8e, 0xa2, 0x3c, 0x38, 0x81, 0x0e]" "round_key zero_schedule 7 = [0x96, 0x8a, 0x81, 0xc1, 0x41, 0xfc, 0xf7, 0x50, 0x3c, 0x71, 0x7a, 0x3a, 0xeb, 0x07, 0x0c, 0xab]" "round_key zero_schedule 8 = [0x9e, 0xaa, 0x8f, 0x28, 0xc0, 0xf1, 0x6d, 0x45, 0xf1, 0xc6, 0xe3, 0xe7, 0xcd, 0xfe, 0x62, 0xe9]" "round_key zero_schedule 9 = [0x2b, 0x31, 0x2b, 0xdf, 0x6a, 0xcd, 0xdc, 0x8f, 0x56, 0xbc, 0xa6, 0xb5, 0xbd, 0xbb, 0xaa, 0x1e]" "round_key zero_schedule 10 = [0x64, 0x06, 0xfd, 0x52, 0xa4, 0xf7, 0x90, 0x17, 0x55, 0x31, 0x73, 0xf0, 0x98, 0xcf, 0x11, 0x19]" "round_key zero_schedule 11 = [0x6d, 0xbb, 0xa9, 0x0b, 0x07, 0x76, 0x75, 0x84, 0x51, 0xca, 0xd3, 0x31, 0xec, 0x71, 0x79, 0x2f]" "round_key zero_schedule 12 = [0xe7, 0xb0, 0xe8, 0x9c, 0x43, 0x47, 0x78, 0x8b, 0x16, 0x76, 0x0b, 0x7b, 0x8e, 0xb9, 0x1a, 0x62]" "round_key zero_schedule 13 = [0x74, 0xed, 0x0b, 0xa1, 0x73, 0x9b, 0x7e, 0x25, 0x22, 0x51, 0xad, 0x14, 0xce, 0x20, 0xd4, 0x3b]" "round_key zero_schedule 14 = [0x10, 0xf8, 0x0a, 0x17, 0x53, 0xbf, 0x72, 0x9c, 0x45, 0xc9, 0x79, 0xe7, 0xcb, 0x70, 0x63, 0x85]"
  by (simp_all add: round_key_def zero_schedule_eq)

lemma other_schedule_eq:
  "other_schedule =
     [[0x00, 0x00, 0x00, 0x00],
      [0x00, 0x00, 0x00, 0x00],
      [0x00, 0x00, 0x00, 0x00],
      [0x00, 0x00, 0x00, 0x00],
      [0x00, 0x00, 0x00, 0x00],
      [0x00, 0x00, 0x00, 0x00],
      [0x00, 0x00, 0x00, 0x00],
      [0x00, 0x00, 0x00, 0x01],
      [0x62, 0x63, 0x7c, 0x63],
      [0x62, 0x63, 0x7c, 0x63],
      [0x62, 0x63, 0x7c, 0x63],
      [0x62, 0x63, 0x7c, 0x63],
      [0xaa, 0xfb, 0x10, 0xfb],
      [0xaa, 0xfb, 0x10, 0xfb],
      [0xaa, 0xfb, 0x10, 0xfb],
      [0xaa, 0xfb, 0x10, 0xfa],
      [0x6f, 0xa9, 0x51, 0xcf],
      [0x0d, 0xca, 0x2d, 0xac],
      [0x6f, 0xa9, 0x51, 0xcf],
      [0x0d, 0xca, 0x2d, 0xac],
      [0x7d, 0x8f, 0xc8, 0x6a],
      [0xd7, 0x74, 0xd8, 0x91],
      [0x7d, 0x8f, 0xc8, 0x6a],
      [0xd7, 0x74, 0xd8, 0x90],
      [0xf9, 0xc8, 0x31, 0xc1],
      [0xf4, 0x02, 0x1c, 0x6d],
      [0x9b, 0xab, 0x4d, 0xa2],
      [0x96, 0x61, 0x60, 0x0e],
      [0xed, 0x60, 0x18, 0xc1],
      [0x3a, 0x14, 0xc0, 0x50],
      [0x47, 0x9b, 0x08, 0x3a],
      [0x90, 0xef, 0xd0, 0xaa],
      [0x2e, 0xb8, 0x9d, 0xa1],
      [0xda, 0xba, 0x81, 0xcc],
      [0x41, 0x11, 0xcc, 0x6e],
      [0xd7, 0x70, 0xac, 0x60],
      [0xe3, 0x31, 0x89, 0x11],
      [0xd9, 0x25, 0x49, 0x41],
      [0x9e, 0xbe, 0x41, 0x7b],
      [0x0e, 0x51, 0x91, 0xd1],
      [0xef, 0x39, 0xa3, 0x0a],
      [0x35, 0x83, 0x22, 0xc6],
      [0x74, 0x92, 0xee, 0xa8],
      [0xa3, 0xe2, 0x42, 0xc8],
      [0xe9, 0xa9, 0xa5, 0xf9],
      [0x30, 0x8c, 0xec, 0xb8],
      [0xae, 0x32, 0xad, 0xc3],
      [0xa0, 0x63, 0x3c, 0x12],
      [0x34, 0xd2, 0x6a, 0xea],
      [0x01, 0x51, 0x48, 0x2c],
      [0x75, 0xc3, 0xa6, 0x84],
      [0xd6, 0x21, 0xe4, 0x4c],
      [0x1f, 0x54, 0xcc, 0xd0],
      [0x2f, 0xd8, 0x20, 0x68],
      [0x81, 0xea, 0x8d, 0xab],
      [0x21, 0x89, 0xb1, 0xb9],
      [0xd3, 0x1a, 0x3c, 0x17],
      [0xd2, 0x4b, 0x74, 0x3b],
      [0xa7, 0x88, 0xd2, 0xbf],
      [0x71, 0xa9, 0x36, 0xf3]]"
  unfolding other_schedule_def other_key_def
  by (simp add: key_expansion_def next_word_def xor_bytes_def sub_word_def rot_word_def rcon_def sbox_simps upt_rec)

lemma other_round_keys:
  "round_key other_schedule 0 = [0x00, 0x00, 0x00, 0x00, 0x00, 0x00, 0x00, 0x00, 0x00, 0x00, 0x00, 0x00, 0x00, 0x00, 0x00, 0x00]" "round_key other_schedule (Suc 0) = [0x00, 0x00, 0x00, 0x00, 0x00, 0x00, 0x00, 0x00, 0x00, 0x00, 0x00, 0x00, 0x00, 0x00, 0x00, 0x01]" "round_key other_schedule 2 = [0x62, 0x63, 0x7c, 0x63, 0x62, 0x63, 0x7c, 0x63, 0x62, 0x63, 0x7c, 0x63, 0x62, 0x63, 0x7c, 0x63]" "round_key other_schedule 3 = [0xaa, 0xfb, 0x10, 0xfb, 0xaa, 0xfb, 0x10, 0xfb, 0xaa, 0xfb, 0x10, 0xfb, 0xaa, 0xfb, 0x10, 0xfa]" "round_key other_schedule 4 = [0x6f, 0xa9, 0x51, 0xcf, 0x0d, 0xca, 0x2d, 0xac, 0x6f, 0xa9, 0x51, 0xcf, 0x0d, 0xca, 0x2d, 0xac]" "round_key other_schedule 5 = [0x7d, 0x8f, 0xc8, 0x6a, 0xd7, 0x74, 0xd8, 0x91, 0x7d, 0x8f, 0xc8, 0x6a, 0xd7, 0x74, 0xd8, 0x90]" "round_key other_schedule 6 = [0xf9, 0xc8, 0x31, 0xc1, 0xf4, 0x02, 0x1c, 0x6d, 0x9b, 0xab, 0x4d, 0xa2, 0x96, 0x61, 0x60, 0x0e]" "round_key other_schedule 7 = [0xed, 0x60, 0x18, 0xc1, 0x3a, 0x14, 0xc0, 0x50, 0x47, 0x9b, 0x08, 0x3a, 0x90, 0xef, 0xd0, 0xaa]" "round_key other_schedule 8 = [0x2e, 0xb8, 0x9d, 0xa1, 0xda, 0xba, 0x81, 0xcc, 0x41, 0x11, 0xcc, 0x6e, 0xd7, 0x70, 0xac, 0x60]" "round_key other_schedule 9 = [0xe3, 0x31, 0x89, 0x11, 0xd9, 0x25, 0x49, 0x41, 0x9e, 0xbe, 0x41, 0x7b, 0x0e, 0x51, 0x91, 0xd1]" "round_key other_schedule 10 = [0xef, 0x39, 0xa3, 0x0a, 0x35, 0x83, 0x22, 0xc6, 0x74, 0x92, 0xee, 0xa8, 0xa3, 0xe2, 0x42, 0xc8]" "round_key other_schedule 11 = [0xe9, 0xa9, 0xa5, 0xf9, 0x30, 0x8c, 0xec, 0xb8, 0xae, 0x32, 0xad, 0xc3, 0xa0, 0x63, 0x3c, 0x12]" "round_key other_schedule 12 = [0x34, 0xd2, 0x6a, 0xea, 0x01, 0x51, 0x48, 0x2c, 0x75, 0xc3, 0xa6, 0x84, 0xd6, 0x21, 0xe4, 0x4c]" "round_key other_schedule 13 = [0x1f, 0x54, 0xcc, 0xd0, 0x2f, 0xd8, 0x20, 0x68, 0x81, 0xea, 0x8d, 0xab, 0x21, 0x89, 0xb1, 0xb9]" "round_key other_schedule 14 = [0xd3, 0x1a, 0x3c, 0x17, 0xd2, 0x4b, 0x74, 0x3b, 0xa7, 0x88, 0xd2, 0xbf, 0x71, 0xa9, 0x36, 0xf3]"
  by (simp_all add: round_key_def other_schedule_eq)

lemma fips_cipher:
  "cipher fips_schedule [0x00, 0x11, 0x22, 0x33, 0x44, 0x55, 0x66, 0x77, 0x88, 0x99, 0xaa, 0xbb, 0xcc, 0xdd, 0xee, 0xff] = [0x8e, 0xa2, 0xb7, 0xca, 0x51, 0x67, 0x45, 0xbf, 0xea, 0xfc, 0x49, 0x90, 0x4b, 0x49, 0x60, 0x89]"
  by (simp add: cipher_def aes_round_def shift_rows_def sub_bytes_def xor_bytes_def sbox_simps xtime_simps upt_1_14 fips_round_keys)

lemma zero_cipher_h:
  "cipher zero_schedule [0x00, 0x00, 0x00, 0x00, 0x00, 0x00, 0x00, 0x00, 0x00, 0x00, 0x00, 0x00, 0x00, 0x00, 0x00, 0x00] = [0xdc, 0x95, 0xc0, 0x78, 0xa2, 0x40, 0x89, 0x89, 0xad, 0x48, 0xa2, 0x14, 0x92, 0x84, 0x20, 0x87]"
  by (simp add: cipher_def aes_round_def shift_rows_def sub_bytes_def xor_bytes_def sbox_simps xtime_simps upt_1_14 zero_round_keys)

lemma zero_cipher_j0:
  "cipher zero_schedule [0x00, 0x00, 0x00, 0x00, 0x00, 0x00, 0x00, 0x00, 0x00, 0x00, 0x00, 0x00, 0x00, 0x00, 0x00, 0x01] = [0x53, 0x0f, 0x8a, 0xfb, 0xc7, 0x45, 0x36, 0xb9, 0xa9, 0x63, 0xb4, 0xf1, 0xc4, 0xcb, 0x73, 0x8b]"
  by (simp add: cipher_def aes_round_def shift_rows_def sub_bytes_def xor_bytes_def sbox_simps xtime_simps upt_1_14 zero_round_keys)

lemma zero_cipher_ctr2:
  "cipher zero_schedule [0x00, 0x00, 0x00, 0x00, 0x00, 0x00, 0x00, 0x00, 0x00, 0x00, 0x00, 0x00, 0x00, 0x00, 0x00, 0x02] = [0xce, 0xa7, 0x40, 0x3d, 0x4d, 0x60, 0x6b, 0x6e, 0x07, 0x4e, 0xc5, 0xd3, 0xba, 0xf3, 0x9d, 0x18]"
  by (simp add: cipher_def aes_round_def shift_rows_def sub_bytes_def xor_bytes_def sbox_simps xtime_simps upt_1_14 zero_round_keys)

lemma other_cipher_h:
  "cipher other_schedule [0x00, 0x00, 0x00, 0x00, 0x00, 0x00, 0x00, 0x00, 0x00, 0x00, 0x00, 0x00, 0x00, 0x00, 0x00, 0x00] = [0x6b, 0x6c, 0xfe, 0x16, 0x0a, 0x62, 0x63, 0x63, 0x1b, 0x29, 0x2f, 0x87, 0x9e, 0xef, 0xf9, 0x26]"
  by (simp add: cipher_def aes_round_def shift_rows_def sub_bytes_def xor_bytes_def sbox_simps xtime_simps upt_1_14 other_round_keys)

lemma other_cipher_j0:
  "cipher other_schedule [0x00, 0x00, 0x00, 0x00, 0x00, 0x00, 0x00, 0x00, 0x00, 0x00, 0x00, 0x00, 0x00, 0x00, 0x00, 0x01] = [0xc9, 0xd2, 0xb5, 0xdb, 0x15, 0xfd, 0x89, 0x02, 0xa6, 0xeb, 0xf4, 0x78, 0xc3, 0xb7, 0x80, 0x14]"
  by (simp add: cipher_def aes_round_def shift_rows_def sub_bytes_def xor_bytes_def sbox_simps xtime_simps upt_1_14 other_round_keys)

lemma other_cipher_ctr2:
  "cipher other_schedule [0x00, 0x00, 0x00, 0x00, 0x00, 0x00, 0x00, 0x00, 0x00, 0x00, 0x00, 0x00, 0x00, 0x00, 0x00, 0x02] = [0x59, 0x97, 0x6d, 0xaf, 0xc8, 0x62, 0x4b, 0xcf, 0x50, 0x21, 0x41, 0x83, 0xc2, 0x1d, 0x8d, 0xf1]"
  by (simp add: cipher_def aes_round_def shift_rows_def sub_bytes_def xor_bytes_def sbox_simps xtime_simps upt_1_14 other_round_keys)

lemma zero_gf_1:
  "gf_mul 0x3e0e2da80440d05f943a05a05d3b8009 0xdc95c078a2408989ad48a21492842087 = 0x5dec1d4c3f3f14271a4d1e3d8c8890d5"
  by (simp add: gf_mul_def gf_mul_step_def upt_rec bit_Suc_0_iff)

lemma zero_gf_2:
  "gf_mul 0x5dec1d4c3f3f14271a4d1e3d8c889055 0xdc95c078a2408989ad48a21492842087 = 0x5187e3a215226517b379082ad7678920"
  by (simp add: gf_mul_def gf_mul_step_def upt_rec bit_Suc_0_iff)

lemma other_gf_1:
  "gf_mul 0x3e0e2da80440d05f943a05a05d3b8009 0x6b6cfe160a6263631b292f879eeff926 = 0xee09f4b0ee0a8d28c63343fc108f39d6"
  by (simp add: gf_mul_def gf_mul_step_def upt_rec bit_Suc_0_iff)

lemma other_gf_2:
  "gf_mul 0xee09f4b0ee0a8d28c63343fc108f3956 0x6b6cfe160a6263631b292f879eeff926 = 0xcb5adc82c79adaacbcf148a3d01b7abf"
  by (simp add: gf_mul_def gf_mul_step_def upt_rec bit_Suc_0_iff)

lemma tc14_gf_1:
  "gf_mul 0xcea7403d4d606b6e074ec5d3baf39d18 0xdc95c078a2408989ad48a21492842087 = 0xfd6ab7586e556dba06d69cfe6223b262"
  by (simp add: gf_mul_def gf_mul_step_def upt_rec bit_Suc_0_iff)

lemma tc14_gf_2:
  "gf_mul 0xfd6ab7586e556dba06d69cfe6223b2e2 0xdc95c078a2408989ad48a21492842087 = 0x83de425c5edc5d498f382c441041ca92"
  by (simp add: gf_mul_def gf_mul_step_def upt_rec bit_Suc_0_iff)

lemma zero_key_schedule:
  "key_expansion [0x00, 0x00, 0x00, 0x00, 0x00, 0x00, 0x00, 0x00, 0x00, 0x00, 0x00, 0x00, 0x00, 0x00, 0x00, 0x00, 0x00, 0x00, 0x00, 0x00, 0x00, 0x00, 0x00, 0x00, 0x00, 0x00, 0x00, 0x00, 0x00, 0x00, 0x00, 0x00] = zero_schedule"
  by (simp only: zero_schedule_def zero_key_def)

lemma other_key_schedule:
  "key_expansion [0x00, 0x00, 0x00, 0x00, 0x00, 0x00, 0x00, 0x00, 0x00, 0x00, 0x00, 0x00, 0x00, 0x00, 0x00, 0x00, 0x00, 0x00, 0x00, 0x00, 0x00, 0x00, 0x00, 0x00, 0x00, 0x00, 0x00, 0x00, 0x00, 0x00, 0x00, 0x01] = other_schedule"
  by (simp only: other_schedule_def other_key_def)

lemma replicate_16_0: "replicate 16 (0::byte) = [0x00, 0x00, 0x00, 0x00, 0x00, 0x00, 0x00, 0x00, 0x00, 0x00, 0x00, 0x00, 0x00, 0x00, 0x00, 0x00]"
  by (simp add: numeral_eq_Suc)

lemma zero_gctr_collide:
  "gctr [0x00, 0x00, 0x00, 0x00, 0x00, 0x00, 0x00, 0x00, 0x00, 0x00, 0x00, 0x00, 0x00, 0x00, 0x00, 0x00, 0x00, 0x00, 0x00, 0x00, 0x00, 0x00, 0x00, 0x00, 0x00, 0x00, 0x00, 0x00, 0x00, 0x00, 0x00, 0x00] [0x00, 0x00, 0x00, 0x00, 0x00, 0x00, 0x00, 0x00, 0x00, 0x00, 0x00, 0x00] [0xf0, 0xa9, 0x6d, 0x95, 0x49, 0x20, 0xbb, 0x31, 0x93, 0x74, 0xc0, 0x73, 0xe7, 0xc8, 0x1d, 0x11] = [0x3e, 0x0e, 0x2d, 0xa8, 0x04, 0x40, 0xd0, 0x5f, 0x94, 0x3a, 0x05, 0xa0, 0x5d, 0x3b, 0x80, 0x09]"
  by (simp add: gcm_tag_def gctr_def keystream_def ctr_block_def ghash_def block_of_bytes_def bytes_of_block_def xor_bytes_def Let_def replicate_16_0 upt_rec zero_key_schedule zero_cipher_ctr2)

lemma other_gctr_collide:
  "gctr [0x00, 0x00, 0x00, 0x00, 0x00, 0x00, 0x00, 0x00, 0x00, 0x00, 0x00, 0x00, 0x00, 0x00, 0x00, 0x00, 0x00, 0x00, 0x00, 0x00, 0x00, 0x00, 0x00, 0x00, 0x00, 0x00, 0x00, 0x00, 0x00, 0x00, 0x00, 0x01] [0x00, 0x00, 0x00, 0x00, 0x00, 0x00, 0x00, 0x00, 0x00, 0x00, 0x00, 0x00] [0x3e, 0x0e, 0x2d, 0xa8, 0x04, 0x40, 0xd0, 0x5f, 0x94, 0x3a, 0x05, 0xa0, 0x5d, 0x3b, 0x80, 0x09] = [0x67, 0x99, 0x40, 0x07, 0xcc, 0x22, 0x9b, 0x90, 0xc4, 0x1b, 0x44, 0x23, 0x9f, 0x26, 0x0d, 0xf8]"
  by (simp add: gcm_tag_def gctr_def keystream_def ctr_block_def ghash_def block_of_bytes_def bytes_of_block_def xor_bytes_def Let_def replicate_16_0 upt_rec other_key_schedule other_cipher_ctr2)

lemma zero_gctr_tc14:
  "gctr [0x00, 0x00, 0x00, 0x00, 0x00, 0x00, 0x00, 0x00, 0x00, 0x00, 0x00, 0x00, 0x00, 0x00, 0x00, 0x00, 0x00, 0x00, 0x00, 0x00, 0x00, 0x00, 0x00, 0x00, 0x00, 0x00, 0x00, 0x00, 0x00, 0x00, 0x00, 0x00] [0x00, 0x00, 0x00, 0x00, 0x00, 0x00, 0x00, 0x00, 0x00, 0x00, 0x00, 0x00] [0x00, 0x00, 0x00, 0x00, 0x00, 0x00, 0x00, 0x00, 0x00, 0x00, 0x00, 0x00, 0x00, 0x00, 0x00, 0x00] = [0xce, 0xa7, 0x40, 0x3d, 0x4d, 0x60, 0x6b, 0x6e, 0x07, 0x4e, 0xc5, 0xd3, 0xba, 0xf3, 0x9d, 0x18]"
  by (simp add: gcm_tag_def gctr_def keystream_def ctr_block_def ghash_def block_of_bytes_def bytes_of_block_def xor_bytes_def Let_def replicate_16_0 upt_rec zero_key_schedule zero_cipher_ctr2)

lemma zero_gctr_back:
  "gctr [0x00, 0x00, 0x00, 0x00, 0x00, 0x00, 0x00, 0x00, 0x00, 0x00, 0x00, 0x00, 0x00, 0x00, 0x00, 0x00, 0x00, 0x00, 0x00, 0x00, 0x00, 0x00, 0x00, 0x00, 0x00, 0x00, 0x00, 0x00, 0x00, 0x00, 0x00, 0x00] [0x00, 0x00, 0x00, 0x00, 0x00, 0x00, 0x00, 0x00, 0x00, 0x00, 0x00, 0x00] [0x3e, 0x0e, 0x2d, 0xa8, 0x04, 0x40, 0xd0, 0x5f, 0x94, 0x3a, 0x05, 0xa0, 0x5d, 0x3b, 0x80, 0x09] = [0xf0, 0xa9, 0x6d, 0x95, 0x49, 0x20, 0xbb, 0x31, 0x93, 0x74, 0xc0, 0x73, 0xe7, 0xc8, 0x1d, 0x11]"
  by (simp add: gcm_tag_def gctr_def keystream_def ctr_block_def ghash_def block_of_bytes_def bytes_of_block_def xor_bytes_def Let_def replicate_16_0 upt_rec zero_key_schedule zero_cipher_ctr2)

lemma zero_tag_collide:
  "gcm_tag [0x00, 0x00, 0x00, 0x00, 0x00, 0x00, 0x00, 0x00, 0x00, 0x00, 0x00, 0x00, 0x00, 0x00, 0x00, 0x00, 0x00, 0x00, 0x00, 0x00, 0x00, 0x00, 0x00, 0x00, 0x00, 0x00, 0x00, 0x00, 0x00, 0x00, 0x00, 0x00] [0x00, 0x00, 0x00, 0x00, 0x00, 0x00, 0x00, 0x00, 0x00, 0x00, 0x00, 0x00] [0x3e, 0x0e, 0x2d, 0xa8, 0x04, 0x40, 0xd0, 0x5f, 0x94, 0x3a, 0x05, 0xa0, 0x5d, 0x3b, 0x80, 0x09] = [0x02, 0x88, 0x69, 0x59, 0xd2, 0x67, 0x53, 0xae, 0x1a, 0x1a, 0xbc, 0xdb, 0x13, 0xac, 0xfa, 0xab]"
  by (simp add: gcm_tag_def gctr_def keystream_def ctr_block_def ghash_def block_of_bytes_def bytes_of_block_def xor_bytes_def Let_def replicate_16_0 upt_rec zero_key_schedule zero_cipher_h zero_cipher_j0 zero_gf_1 zero_gf_2)

lemma other_tag_collide:
  "gcm_tag [0x00, 0x00, 0x00, 0x00, 0x00, 0x00, 0x00, 0x00, 0x00, 0x00, 0x00, 0x00, 0x00, 0x00, 0x00, 0x00, 0x00, 0x00, 0x00, 0x00, 0x00, 0x00, 0x00, 0x00, 0x00, 0x00, 0x00, 0x00, 0x00, 0x00, 0x00, 0x01] [0x00, 0x00, 0x00, 0x00, 0x00, 0x00, 0x00, 0x00, 0x00, 0x00, 0x00, 0x00] [0x3e, 0x0e, 0x2d, 0xa8, 0x04, 0x40, 0xd0, 0x5f, 0x94, 0x3a, 0x05, 0xa0, 0x5d, 0x3b, 0x80, 0x09] = [0x02, 0x88, 0x69, 0x59, 0xd2, 0x67, 0x53, 0xae, 0x1a, 0x1a, 0xbc, 0xdb, 0x13, 0xac, 0xfa, 0xab]"
  by (simp add: gcm_tag_def gctr_def keystream_def ctr_block_def ghash_def block_of_bytes_def bytes_of_block_def xor_bytes_def Let_def replicate_16_0 upt_rec other_key_schedule other_cipher_h other_cipher_j0 other_gf_1 other_gf_2)

lemma zero_tag_tc14:
  "gcm_tag [0x00, 0x00, 0x00, 0x00, 0x00, 0x00, 0x00, 0x00, 0x00, 0x00, 0x00, 0x00, 0x00, 0x00, 0x00, 0x00, 0x00, 0x00, 0x00, 0x00, 0x00, 0x00, 0x00, 0x00, 0x00, 0x00, 0x00, 0x00, 0x00, 0x00, 0x00, 0x00] [0x00, 0x00, 0x00, 0x00, 0x00, 0x00, 0x00, 0x00, 0x00, 0x00, 0x00, 0x00] [0xce, 0xa7, 0x40, 0x3d, 0x4d, 0x60, 0x6b, 0x6e, 0x07, 0x4e, 0xc5, 0xd3, 0xba, 0xf3, 0x9d, 0x18] = [0xd0, 0xd1, 0xc8, 0xa7, 0x99, 0x99, 0x6b, 0xf0, 0x26, 0x5b, 0x98, 0xb5, 0xd4, 0x8a, 0xb9, 0x19]"
  by (simp add: gcm_tag_def gctr_def keystream_def ctr_block_def ghash_def block_of_bytes_def bytes_of_block_def xor_bytes_def Let_def replicate_16_0 upt_rec zero_key_schedule zero_cipher_h zero_cipher_j0 tc14_gf_1 tc14_gf_2)

lemma aes256_fips197_vector:
  "cipher (key_expansion fips_key) fips_plain = [0x8e, 0xa2, 0xb7, 0xca, 0x51, 0x67, 0x45, 0xbf, 0xea, 0xfc, 0x49, 0x90, 0x4b, 0x49, 0x60, 0x89]"
  unfolding fips_schedule_def[symmetric] fips_plain_def by (rule fips_cipher)

lemma gcm_test_case_14:
  "encrypt zero_iv zero_block zero_key = Inr (zero_iv @ [0xce, 0xa7, 0x40, 0x3d, 0x4d, 0x60, 0x6b, 0x6e, 0x07, 0x4e, 0xc5, 0xd3, 0xba, 0xf3, 0x9d, 0x18] @ [0xd0, 0xd1, 0xc8, 0xa7, 0x99, 0x99, 0x6b, 0xf0, 0x26, 0x5b, 0x98, 0xb5, 0xd4, 0x8a, 0xb9, 0x19])"
  unfolding zero_iv_def zero_block_def zero_key_def
  by (simp add: encrypt_def  Let_def zero_gctr_tc14 zero_tag_tc14)


lemma zero_tag_empty:
  "gcm_tag zero_key zero_iv [] = [0x53, 0x0f, 0x8a, 0xfb, 0xc7, 0x45, 0x36, 0xb9, 0xa9, 0x63, 0xb4, 0xf1, 0xc4, 0xcb, 0x73, 0x8b]"
  unfolding zero_key_def zero_iv_def
  by (simp add: gcm_tag_def ctr_block_def ghash_def block_of_bytes_def bytes_of_block_def
        Let_def replicate_16_0 upt_rec zero_key_schedule zero_cipher_h zero_cipher_j0 gf_mul_zero)

lemma other_tag_empty:
  "gcm_tag other_key zero_iv [] = [0xc9, 0xd2, 0xb5, 0xdb, 0x15, 0xfd, 0x89, 0x02, 0xa6, 0xeb, 0xf4, 0x78, 0xc3, 0xb7, 0x80, 0x14]"
  unfolding other_key_def zero_iv_def
  by (simp add: gcm_tag_def ctr_block_def ghash_def block_of_bytes_def bytes_of_block_def
        Let_def replicate_16_0 upt_rec other_key_schedule other_cipher_h other_cipher_j0 gf_mul_zero)

subsection \<open>Claims about the envelope cipher\<close>

text \<open>
  C3: for every plaintext, every 32-byte key and every 12-byte nonce the random source may
  produce, \<open>encrypt\<close> returns an envelope, and \<open>decrypt\<close> of that envelope with the same key
  returns exactly the plaintext.
\<close>

theorem decrypt_encrypt:
  assumes "length key = 32" and "length iv = 12"
  shows "\<exists>blob. encrypt iv p key = Inr blob \<and> decrypt blob key = Inr p"
proof -
  let ?ct = "gctr key iv p"
  let ?tag = "gcm_tag key iv ?ct"
  have e: "encrypt iv p key = Inr (iv @ ?ct @ ?tag)"
    using assms(1) by (simp add: encrypt_def  Let_def)
  have "decrypt (iv @ ?ct @ ?tag) key = Inr (gctr key iv ?ct)"
    using assms(1) by (simp add: decrypt_envelope[OF assms(2) length_gcm_tag])
  with e show ?thesis
    by (simp add: gctr_involution[OF assms(1)])
qed

theorem decrypt_encrypt_witness:
  "length zero_key = 32 \<and> length zero_iv = 12
   \<and> (\<exists>blob. encrypt zero_iv collide_plain zero_key = Inr blob
          \<and> decrypt blob zero_key = Inr collide_plain)"
proof -
  have k: "length zero_key = 32" by (simp add: zero_key_def)
  have n: "length zero_iv = 12" by (simp add: zero_iv_def)
  from decrypt_encrypt [OF k n, of collide_plain] k n show ?thesis by blast
qed

text \<open>
  C4: the claim is that for every plaintext and every pair of distinct keys
  \<open>decrypt (encrypt p k1) k2\<close> fails with an integrity error and returns no bytes, and that
  \<open>decrypt\<close> fails for every envelope shorter than 28 bytes or whose tag does not verify.
  The repository's own test "decrypt with wrong key throws" expects the first part of the
  code. The code does not keep it. With the all-zero nonce, the envelope of
  \<open>collide_plain\<close> under the all-zero key carries a tag that is also the tag of its
  ciphertext under \<open>other_key\<close>: \<open>decrypt\<close> with \<open>other_key\<close>, a wrong key, verifies the
  tag and returns sixteen bytes. (The second part holds of the code: \<open>decrypt_too_short\<close>,
  \<open>decrypt_tag_mismatch\<close> and \<open>decrypt_returns_iff\<close> above.)
\<close>

theorem decrypt_wrong_key_returns_bytes:
  "zero_key \<noteq> other_key
   \<and> encrypt zero_iv collide_plain zero_key = Inr collide_blob
   \<and> decrypt collide_blob other_key = Inr collide_plain2"
proof -
  have "zero_key \<noteq> other_key"
    by (simp add: zero_key_def other_key_def)
  moreover have "encrypt zero_iv collide_plain zero_key = Inr collide_blob"
    unfolding zero_iv_def collide_plain_def zero_key_def collide_blob_def
    by (simp add: encrypt_def  Let_def zero_gctr_collide zero_tag_collide)
  moreover have "decrypt collide_blob other_key = Inr collide_plain2"
    unfolding collide_blob_def other_key_def collide_plain2_def
    by (simp add: decrypt_def  IV_LENGTH_def AUTH_TAG_LENGTH_def Let_def
          other_gctr_collide other_tag_collide)
  ultimately show ?thesis by blast
qed


text \<open>
  For comparison, inputs on which \<open>decrypt\<close> fails as the claim says: a three-byte
  envelope, the envelope above with its last byte changed, and the envelope of the empty
  plaintext under the all-zero key opened with \<open>other_key\<close>. The envelope above opened with
  its own key returns the plaintext.
\<close>

lemma decrypt_failure_examples:
  "decrypt [1, 2, 3] zero_key = Inl BlobTooShort
   \<and> decrypt tampered_blob zero_key = Inl AuthFailed
   \<and> encrypt zero_iv [] zero_key = Inr (zero_iv @ gcm_tag zero_key zero_iv [])
   \<and> decrypt (zero_iv @ gcm_tag zero_key zero_iv []) other_key = Inl AuthFailed
   \<and> decrypt collide_blob zero_key = Inr collide_plain"
proof -
  have k1: "length zero_key = 32" by (simp add: zero_key_def)
  have k2: "length other_key = 32" by (simp add: other_key_def)
  have n: "length zero_iv = 12" by (simp add: zero_iv_def)
  have c: "gctr zero_key zero_iv [] = []" by (simp add: gctr_def xor_bytes_def)
  have t: "gcm_tag other_key zero_iv [] \<noteq> gcm_tag zero_key zero_iv []"
    by (simp add: zero_tag_empty other_tag_empty)
  have short: "decrypt [1, 2, 3] zero_key = Inl BlobTooShort"
    by (rule decrypt_too_short) simp
  have bad: "decrypt tampered_blob zero_key = Inl AuthFailed"
  proof (rule decrypt_tag_mismatch)
    show "28 \<le> length tampered_blob" by (simp add: tampered_blob_def)
    show "length zero_key = 32" by (rule k1)
    show "gcm_tag zero_key (take 12 tampered_blob)
            (take (length tampered_blob - 28) (drop 12 tampered_blob))
          \<noteq> drop (length tampered_blob - 16) tampered_blob"
      unfolding tampered_blob_def zero_key_def by (simp add: zero_tag_collide)
  qed
  from decrypt_other_key [OF k1 k2 n, of "[]"] t
  have wrong: "encrypt zero_iv [] zero_key = Inr (zero_iv @ gcm_tag zero_key zero_iv [])
      \<and> decrypt (zero_iv @ gcm_tag zero_key zero_iv []) other_key = Inl AuthFailed"
    by (simp add: c)
  have good: "decrypt collide_blob zero_key = Inr collide_plain"
    unfolding collide_blob_def zero_key_def collide_plain_def
    by (simp add: decrypt_def IV_LENGTH_def AUTH_TAG_LENGTH_def Let_def
          zero_gctr_back zero_tag_collide)
  from short bad wrong good show ?thesis by blast
qed

text \<open>
  C10: for every plaintext, 32-byte key and 12-byte nonce, the envelope is the nonce, a
  ciphertext as long as the plaintext and a 16-byte tag, \<open>length p + 28\<close> bytes in all; so
  the relay store accepts the envelope under an unused identifier exactly when the payload
  is at most the size cap less 28 bytes.
\<close>

theorem encrypt_length:
  assumes "length key = 32" and "length iv = 12"
  shows "\<exists>ct tag. encrypt iv p key = Inr (iv @ ct @ tag)
           \<and> length ct = length p \<and> length tag = 16
           \<and> length (iv @ ct @ tag) = length p + 28
           \<and> (\<forall>now i md s. fst (put now i (iv @ ct @ tag) md s) = PutOk
                 \<longleftrightarrow> int (length p) \<le> maxSize s - 28 \<and> \<not> has i s)"
proof -
  let ?ct = "gctr key iv p"
  let ?tag = "gcm_tag key iv ?ct"
  have e: "encrypt iv p key = Inr (iv @ ?ct @ ?tag)"
    using assms(1) by (simp add: encrypt_def  Let_def)
  have c: "length ?ct = length p" by (rule length_gctr[OF assms(1)])
  have t: "length ?tag = 16" by (rule length_gcm_tag)
  have l: "length (iv @ ?ct @ ?tag) = length p + 28" using assms(2) c t by simp
  have "fst (put now i (iv @ ?ct @ ?tag) md s) = PutOk
          \<longleftrightarrow> int (length p) \<le> maxSize s - 28 \<and> \<not> has i s" for now i md s
    unfolding put_def has_def l by auto
  with e c t l show ?thesis by blast
qed

theorem encrypt_length_witness:
  "length zero_key = 32 \<and> length zero_iv = 12
   \<and> (\<exists>ct tag. encrypt zero_iv collide_plain zero_key = Inr (zero_iv @ ct @ tag)
          \<and> length ct = 16 \<and> length tag = 16 \<and> length (zero_iv @ ct @ tag) = 44
          \<and> fst (put 0 ''cd'' (zero_iv @ ct @ tag) None store0) = PutOk)"
proof -
  have k: "length zero_key = 32" by (simp add: zero_key_def)
  have n: "length zero_iv = 12" by (simp add: zero_iv_def)
  have p: "length collide_plain = 16" by (simp add: collide_plain_def)
  have fits: "int (length collide_plain) \<le> maxSize store0 - 28 \<and> \<not> has ''cd'' store0"
    by (simp add: p store0_def has_def)
  from encrypt_length [OF k n, of collide_plain] obtain ct tag where
    e: "encrypt zero_iv collide_plain zero_key = Inr (zero_iv @ ct @ tag)"
    and l: "length ct = length collide_plain" "length tag = 16"
      "length (zero_iv @ ct @ tag) = length collide_plain + 28"
    and s: "\<forall>now i md s. fst (put now i (zero_iv @ ct @ tag) md s) = PutOk
                 \<longleftrightarrow> int (length collide_plain) \<le> maxSize s - 28 \<and> \<not> has i s"
    by blast
  from s fits have "fst (put 0 ''cd'' (zero_iv @ ct @ tag) None store0) = PutOk" by blast
  with e l p have "encrypt zero_iv collide_plain zero_key = Inr (zero_iv @ ct @ tag)
          \<and> length ct = 16 \<and> length tag = 16 \<and> length (zero_iv @ ct @ tag) = 44
          \<and> fst (put 0 ''cd'' (zero_iv @ ct @ tag) None store0) = PutOk"
    by simp
  then have "\<exists>ct tag. encrypt zero_iv collide_plain zero_key = Inr (zero_iv @ ct @ tag)
          \<and> length ct = 16 \<and> length tag = 16 \<and> length (zero_iv @ ct @ tag) = 44
          \<and> fst (put 0 ''cd'' (zero_iv @ ct @ tag) None store0) = PutOk"
    by blast
  with k n show ?thesis by blast
qed

end
